theory Spec2Isabelle
  imports Main
begin

section \<open>The sandbox search adapter (SandboxOpenSearchAdapter)\<close>

text \<open>
  A shallow embedding of \<^verbatim>\<open>SandboxOpenSearchAdapter\<close>: the filter compiler
  (\<^verbatim>\<open>buildSearchQuery\<close>), the sort resolver (\<^verbatim>\<open>getSortFieldMapping\<close>), the
  request builder (\<^verbatim>\<open>buildSearchBody\<close>), the result mapper
  (\<^verbatim>\<open>processSearchResponse\<close>), the index lifecycle (\<^verbatim>\<open>createIndex\<close>) and the
  public \<^verbatim>\<open>search\<close>.

  TypeScript types are erased at run time, so the model is of the values the functions
  really receive: an optional property is an \<open>option\<close> (\<open>None\<close> is
  \<^verbatim>\<open>undefined\<close>), a \<^verbatim>\<open>throw\<close> is the \<open>Inl\<close> of a sum, and the calls of the
  logger, which change no result, are left out.
\<close>

subsection \<open>Strings and values\<close>

text \<open>
  A JavaScript string is a sequence of UTF-16 code units; a code unit is a natural number
  below 65536. \<open>js\<close> embeds an ASCII literal of the source.
\<close>

type_synonym jsstring = "nat list"

definition js :: "string \<Rightarrow> jsstring" where
  "js s = map of_char s"

text \<open>
  The enums \<^verbatim>\<open>SandboxState\<close> and \<^verbatim>\<open>SandboxDesiredState\<close> are imported by the
  adapter; their declarations are not among the sources. The adapter names the members
  \<^verbatim>\<open>SandboxState.ERROR\<close>, \<^verbatim>\<open>SandboxState.DESTROYED\<close> and
  \<^verbatim>\<open>SandboxDesiredState.DESTROYED\<close>; every other run-time value of either type is
  carried by its string.
\<close>

datatype SandboxState = ERROR | DESTROYED | OtherState jsstring

datatype SandboxDesiredState = DESTROYED | OtherDesiredState jsstring

text \<open>
  A \<^verbatim>\<open>Date\<close> holds a time value in milliseconds, or none (an invalid date, whose
  \<^verbatim>\<open>toISOString()\<close> throws a \<^verbatim>\<open>RangeError\<close>).
\<close>

datatype Date = Time int | InvalidDate

text \<open>
  What the adapter throws: \<^verbatim>\<open>new Error(msg)\<close>, the \<^verbatim>\<open>RangeError\<close> of
  \<^verbatim>\<open>toISOString\<close>, \<^verbatim>\<open>BadRequestException(msg)\<close>, and what the OpenSearch client
  throws: an \<^verbatim>\<open>errors.ResponseError\<close> with its \<^verbatim>\<open>body?.error?.type\<close>, or anything
  else.
\<close>

datatype exn =
    Error jsstring
  | RangeError
  | BadRequestException jsstring
  | ResponseError "jsstring option"
  | ClientError jsstring

subsection \<open>The filters and the query\<close>

text \<open>
  \<^verbatim>\<open>SandboxSearchFilters\<close>, every property optional. The properties \<^verbatim>\<open>id\<close>,
  \<^verbatim>\<open>sort\<close> and \<^verbatim>\<open>order\<close> carry a prime, since HOL has constants of these names.
  \<^verbatim>\<open>labels\<close> is an object: its entries in the order \<^verbatim>\<open>Object.entries\<close> lists them.
  The numeric bounds are carried into the query unchanged; they are modelled on the
  integers, as the index fields they bound are integer fields.
\<close>

datatype SandboxSearchSortField =
    NAME | STATE | CPU | MEMORY | DISK | LAST_ACTIVITY_AT | CREATED_AT
  | OtherSortField jsstring

type_synonym SandboxSearchSortDirection = jsstring

record SandboxSearchFilters =
  id' :: "jsstring option"
  name :: "jsstring option"
  labels :: "(jsstring \<times> jsstring) list option"
  includeErroredDeleted :: "bool option"
  states :: "SandboxState list option"
  snapshots :: "jsstring list option"
  regionIds :: "jsstring list option"
  minCpu :: "int option"
  maxCpu :: "int option"
  minMemoryGiB :: "int option"
  maxMemoryGiB :: "int option"
  minDiskGiB :: "int option"
  maxDiskGiB :: "int option"
  isPublic :: "bool option"
  isRecoverable :: "bool option"
  createdAtAfter :: "Date option"
  createdAtBefore :: "Date option"
  lastEventAfter :: "Date option"
  lastEventBefore :: "Date option"
  sort' :: "SandboxSearchSortField option"
  order' :: "SandboxSearchSortDirection option"

text \<open>
  The values a clause of the query holds. \<open>QLower s\<close> is \<^verbatim>\<open>s.toLowerCase()\<close> and
  \<open>QIso t\<close> is the \<^verbatim>\<open>toISOString()\<close> of the time value \<open>t\<close>: both are computed by
  the platform from its own tables and are kept as the call.
\<close>

datatype qvalue =
    QStr jsstring
  | QLower jsstring
  | QBool bool
  | QNum int
  | QState SandboxState
  | QDesiredState SandboxDesiredState
  | QIso int

text \<open>
  \<^verbatim>\<open>QueryContainer\<close>, as far as the adapter builds it:
  \<^verbatim>\<open>{term: {[f]: v}}\<close>, \<^verbatim>\<open>{prefix: {[f]: v}}\<close>, \<^verbatim>\<open>{terms: {[f]: vs}}\<close>,
  \<^verbatim>\<open>{range: {[f]: {gte, lte}}}\<close> (a bound that was not spread into the object is
  \<open>None\<close>) and \<^verbatim>\<open>{bool: {must, must_not}}\<close> (\<open>None\<close>: \<^verbatim>\<open>must_not\<close> is
  \<^verbatim>\<open>undefined\<close> or not there).
\<close>

datatype QueryContainer =
    Term jsstring qvalue
  | Prefix jsstring qvalue
  | Terms jsstring "qvalue list"
  | Range jsstring "qvalue option" "qvalue option"
  | Bool "QueryContainer list" "QueryContainer list option"

text \<open>\<^verbatim>\<open>filters?.p\<close>: \<^verbatim>\<open>undefined\<close> when \<^verbatim>\<open>filters\<close> is.\<close>

definition opt :: "SandboxSearchFilters option \<Rightarrow> (SandboxSearchFilters \<Rightarrow> 'a option) \<Rightarrow> 'a option" where
  "opt filters p = (case filters of None \<Rightarrow> None | Some f \<Rightarrow> p f)"

text \<open>
  \<^verbatim>\<open>if (filters?.id) must.push({ prefix: { id: filters.id.toLowerCase() } })\<close>: the empty
  string is falsy.
\<close>

definition prefixClause :: "jsstring \<Rightarrow> jsstring option \<Rightarrow> QueryContainer list" where
  "prefixClause field v =
     (case v of
        None \<Rightarrow> []
      | Some s \<Rightarrow> if s \<noteq> [] then [Prefix field (QLower s)] else [])"

text \<open>
  \<^verbatim>\<open>if (filters?.states?.length) must.push({ terms: { state: filters.states } })\<close>: the
  length 0 is falsy.
\<close>

definition termsClause :: "jsstring \<Rightarrow> qvalue list option \<Rightarrow> QueryContainer list" where
  "termsClause field vs =
     (case vs of
        None \<Rightarrow> []
      | Some xs \<Rightarrow> if length xs \<noteq> 0 then [Terms field xs] else [])"

text \<open>
  \<^verbatim>\<open>if (min !== undefined || max !== undefined) must.push({ range: { f: {
  ...(min !== undefined && { gte: min }), ...(max !== undefined && { lte: max }) } } })\<close>
\<close>

definition rangeClause :: "jsstring \<Rightarrow> int option \<Rightarrow> int option \<Rightarrow> QueryContainer list" where
  "rangeClause field lo hi =
     (if lo \<noteq> None \<or> hi \<noteq> None
      then [Range field (map_option QNum lo) (map_option QNum hi)]
      else [])"

text \<open>\<^verbatim>\<open>if (filters?.isPublic !== undefined) must.push({ term: { public: filters.isPublic } })\<close>\<close>

definition boolClause :: "jsstring \<Rightarrow> bool option \<Rightarrow> QueryContainer list" where
  "boolClause field v = (case v of None \<Rightarrow> [] | Some b \<Rightarrow> [Term field (QBool b)])"

text \<open>\<^verbatim>\<open>d.toISOString()\<close>\<close>

definition toISOString :: "Date \<Rightarrow> exn + qvalue" where
  "toISOString d = (case d of Time t \<Rightarrow> Inr (QIso t) | InvalidDate \<Rightarrow> Inl RangeError)"

text \<open>\<^verbatim>\<open>...(d && { gte: d.toISOString() })\<close>: a \<^verbatim>\<open>Date\<close> is an object, and truthy.\<close>

definition dateBound :: "Date option \<Rightarrow> exn + qvalue option" where
  "dateBound d =
     (case d of
        None \<Rightarrow> Inr None
      | Some x \<Rightarrow> (case toISOString x of Inl e \<Rightarrow> Inl e | Inr s \<Rightarrow> Inr (Some s)))"

text \<open>
  \<^verbatim>\<open>if (after || before) must.push({ range: { f: { ...(after && { gte:
  after.toISOString() }), ...(before && { lte: before.toISOString() }) } } })\<close>: the lower
  bound is evaluated first.
\<close>

definition dateRangeClause :: "jsstring \<Rightarrow> Date option \<Rightarrow> Date option \<Rightarrow> exn + QueryContainer list" where
  "dateRangeClause field after before =
     (if after \<noteq> None \<or> before \<noteq> None
      then (case dateBound after of
              Inl e \<Rightarrow> Inl e
            | Inr lo \<Rightarrow>
                (case dateBound before of
                   Inl e \<Rightarrow> Inl e
                 | Inr hi \<Rightarrow> Inr [Range field lo hi]))
      else Inr [])"

text \<open>
  \<^verbatim>\<open>if (filters?.labels) for (const [key, value] of Object.entries(filters.labels))
  must.push({ term: { [`labels.${key}`]: value } })\<close>
\<close>

definition labelClauses :: "(jsstring \<times> jsstring) list option \<Rightarrow> QueryContainer list" where
  "labelClauses ls =
     (case ls of
        None \<Rightarrow> []
      | Some kvs \<Rightarrow> map (\<lambda>(key, v). Term (js ''labels.'' @ key) (QStr v)) kvs)"

text \<open>
  The sub-clause of the default exclusion:
  \<^verbatim>\<open>{ bool: { must: [{ term: { state: SandboxState.ERROR } },
  { term: { desiredState: SandboxDesiredState.DESTROYED } }] } }\<close>
\<close>

definition erroredDeleted :: QueryContainer where
  "erroredDeleted =
     Bool [Term (js ''state'') (QState SandboxState.ERROR),
           Term (js ''desiredState'') (QDesiredState SandboxDesiredState.DESTROYED)] None"

text \<open>
  \<^verbatim>\<open>buildSearchQuery(organizationId, filters?)\<close>. The clauses are pushed in the order of
  the source; \<^verbatim>\<open>!filters?.includeErroredDeleted\<close> holds when the flag is
  \<^verbatim>\<open>undefined\<close> or \<^verbatim>\<open>false\<close>. The only statements that can throw are the two
  date ranges.
\<close>

definition buildSearchQuery :: "jsstring \<Rightarrow> SandboxSearchFilters option \<Rightarrow> exn + QueryContainer" where
  "buildSearchQuery organizationId filters =
     (let must = [Term (js ''organizationId'') (QStr organizationId)];
          mustNot = (if opt filters includeErroredDeleted \<noteq> Some True then [erroredDeleted] else []);
          must = must @ prefixClause (js ''id'') (opt filters id');
          must = must @ prefixClause (js ''name'') (opt filters name);
          must = must @ termsClause (js ''state'') (map_option (map QState) (opt filters states));
          must = must @ termsClause (js ''snapshot'') (map_option (map QStr) (opt filters snapshots));
          must = must @ termsClause (js ''region'') (map_option (map QStr) (opt filters regionIds));
          must = must @ rangeClause (js ''cpu'') (opt filters minCpu) (opt filters maxCpu);
          must = must @ rangeClause (js ''mem'') (opt filters minMemoryGiB) (opt filters maxMemoryGiB);
          must = must @ rangeClause (js ''disk'') (opt filters minDiskGiB) (opt filters maxDiskGiB);
          must = must @ boolClause (js ''public'') (opt filters isPublic);
          must = must @ boolClause (js ''recoverable'') (opt filters isRecoverable)
      in case dateRangeClause (js ''createdAt'') (opt filters createdAtAfter) (opt filters createdAtBefore) of
           Inl e \<Rightarrow> Inl e
         | Inr created \<Rightarrow>
             (case dateRangeClause (js ''lastActivityAt'') (opt filters lastEventAfter) (opt filters lastEventBefore) of
                Inl e \<Rightarrow> Inl e
              | Inr lastActivity \<Rightarrow>
                  Inr (Bool (must @ created @ lastActivity @ labelClauses (opt filters labels))
                         (if length mustNot > 0 then Some mustNot else None))))"

subsection \<open>JavaScript values\<close>

text \<open>
  The values a document of the index and a decoded cursor hold: the values of JSON, and
  \<^verbatim>\<open>undefined\<close> (what reading a property that is not there gives). An object is the
  list of its properties in the order the platform enumerates them. A number is a
  double, and doubles are not modelled: \<open>Num n\<close> is the integer \<open>n\<close>, for the
  integers below \<open>2^53\<close> in absolute value, which doubles hold exactly and
  \<^verbatim>\<open>JSON\<close> reads and writes exactly; \<open>NumLit t\<close> is the double that any other
  JSON literal \<open>t\<close> denotes (one with a fraction or an exponent, an integer outside
  that range, which is rounded, or \<^verbatim>\<open>-0\<close>), kept as the text of the literal.
\<close>

datatype jsval =
    Undefined
  | Null
  | Boolean bool
  | Num int
  | NumLit jsstring
  | Str jsstring
  | Arr "jsval list"
  | Obj "(jsstring \<times> jsval) list"

subsection \<open>\<^verbatim>\<open>JSON.stringify\<close>\<close>

text \<open>
  \<^verbatim>\<open>QuoteJSONString\<close> of ECMAScript (2019 and later, well-formed
  \<^verbatim>\<open>JSON.stringify\<close>): the two-character escapes for backspace, tab, line feed, form
  feed, carriage return, the double quote (34) and the backslash (92); a
  \<^verbatim>\<open>u\<close>-escape with four lower-case hexadecimal digits for every other code unit
  below 32 and for a surrogate that is not part of a pair; every other code unit as it
  is.
\<close>

definition hexDigit :: "nat \<Rightarrow> nat" where
  "hexDigit d = (if d < 10 then 48 + d else 87 + d)"

definition unicodeEscape :: "nat \<Rightarrow> jsstring" where
  "unicodeEscape c =
     [92, 117, hexDigit (c div 4096 mod 16), hexDigit (c div 256 mod 16),
      hexDigit (c div 16 mod 16), hexDigit (c mod 16)]"

definition isLeadingSurrogate :: "nat \<Rightarrow> bool" where
  "isLeadingSurrogate c = (55296 \<le> c \<and> c \<le> 56319)"

definition isTrailingSurrogate :: "nat \<Rightarrow> bool" where
  "isTrailingSurrogate c = (56320 \<le> c \<and> c \<le> 57343)"

definition quoteCodeUnit :: "nat \<Rightarrow> jsstring" where
  "quoteCodeUnit c =
     (if c = 8 then [92, 98]
      else if c = 9 then [92, 116]
      else if c = 10 then [92, 110]
      else if c = 12 then [92, 102]
      else if c = 13 then [92, 114]
      else if c = 34 then [92, 34]
      else if c = 92 then [92, 92]
      else if c < 32 \<or> isLeadingSurrogate c \<or> isTrailingSurrogate c then unicodeEscape c
      else [c])"

fun quoteChars :: "jsstring \<Rightarrow> jsstring" where
  "quoteChars [] = []"
| "quoteChars [c] = quoteCodeUnit c"
| "quoteChars (c # d # cs) =
     (if isLeadingSurrogate c \<and> isTrailingSurrogate d then c # d # quoteChars cs
      else quoteCodeUnit c @ quoteChars (d # cs))"

definition QuoteJSONString :: "jsstring \<Rightarrow> jsstring" where
  "QuoteJSONString s = [34] @ quoteChars s @ [34]"

text \<open>\<^verbatim>\<open>Number::toString\<close> of an integer: its decimal digits, after a minus sign when negative.\<close>

fun digits :: "nat \<Rightarrow> jsstring" where
  "digits n = (if n < 10 then [48 + n] else digits (n div 10) @ [48 + n mod 10])"

declare digits.simps [simp del]

definition numberToString :: "int \<Rightarrow> jsstring" where
  "numberToString n = (if n < 0 then 45 # digits (nat (- n)) else digits (nat n))"

definition joinWith :: "jsstring \<Rightarrow> jsstring list \<Rightarrow> jsstring" where
  "joinWith sep xs = (case xs of [] \<Rightarrow> [] | x # r \<Rightarrow> x @ concat (map (\<lambda>y. sep @ y) r))"

text \<open>
  \<^verbatim>\<open>SerializeJSONProperty\<close>, without indentation: \<open>None\<close> is \<^verbatim>\<open>undefined\<close>. An
  element of an array that serializes to \<^verbatim>\<open>undefined\<close> is written \<^verbatim>\<open>null\<close>; a
  property of an object that does is left out.
\<close>

fun SerializeJSONProperty :: "jsval \<Rightarrow> jsstring option" where
  "SerializeJSONProperty Undefined = None"
| "SerializeJSONProperty Null = Some (js ''null'')"
| "SerializeJSONProperty (Boolean b) = Some (if b then js ''true'' else js ''false'')"
| "SerializeJSONProperty (Num n) = Some (numberToString n)"
| "SerializeJSONProperty (NumLit t) = Some t"
| "SerializeJSONProperty (Str s) = Some (QuoteJSONString s)"
| "SerializeJSONProperty (Arr xs) =
     Some (js ''['' @
           joinWith (js '','')
             (map (\<lambda>x. case SerializeJSONProperty x of None \<Rightarrow> js ''null'' | Some t \<Rightarrow> t) xs)
           @ js '']'')"
| "SerializeJSONProperty (Obj kvs) =
     Some (js ''{'' @
           joinWith (js '','')
             (concat (map (\<lambda>(k, v). case SerializeJSONProperty v of
                                         None \<Rightarrow> []
                                       | Some t \<Rightarrow> [QuoteJSONString k @ js '':'' @ t]) kvs))
           @ js ''}'')"

text \<open>\<^verbatim>\<open>JSON.stringify(xs)\<close> of an array \<open>xs\<close>, which is always a string.\<close>

definition JSON_stringify_array :: "jsval list \<Rightarrow> jsstring" where
  "JSON_stringify_array xs =
     js ''['' @
     joinWith (js '','')
       (map (\<lambda>x. case SerializeJSONProperty x of None \<Rightarrow> js ''null'' | Some t \<Rightarrow> t) xs)
     @ js '']''"

subsection \<open>\<^verbatim>\<open>Buffer\<close>: UTF-8 and base64\<close>

text \<open>
  \<^verbatim>\<open>Buffer.from(s)\<close>: the UTF-8 bytes of a string. A surrogate pair is one code point
  of four bytes; a surrogate that is not part of a pair is written as U+FFFD
  (\<open>239, 191, 189\<close>).
\<close>

fun utf8Encode :: "jsstring \<Rightarrow> nat list" where
  "utf8Encode [] = []"
| "utf8Encode (c # cs) =
     (if c < 128 then c # utf8Encode cs
      else if c < 2048 then (192 + c div 64) # (128 + c mod 64) # utf8Encode cs
      else if isLeadingSurrogate c then
        (case cs of
           [] \<Rightarrow> [239, 191, 189]
         | d # ds \<Rightarrow>
             if isTrailingSurrogate d then
               (let cp = 65536 + (c - 55296) * 1024 + (d - 56320)
                in (240 + cp div 262144) # (128 + cp div 4096 mod 64) #
                   (128 + cp div 64 mod 64) # (128 + cp mod 64) # utf8Encode ds)
             else [239, 191, 189] @ utf8Encode cs)
      else if isTrailingSurrogate c then [239, 191, 189] @ utf8Encode cs
      else (224 + c div 4096) # (128 + c div 64 mod 64) # (128 + c mod 64) # utf8Encode cs)"

text \<open>\<^verbatim>\<open>buf.toString('base64')\<close>: the standard alphabet, padded with \<^verbatim>\<open>=\<close> (61).\<close>

definition base64Char :: "nat \<Rightarrow> nat" where
  "base64Char n =
     (if n < 26 then 65 + n
      else if n < 52 then 71 + n
      else if n < 62 then n - 4
      else if n = 62 then 43
      else 47)"

fun base64Encode :: "nat list \<Rightarrow> jsstring" where
  "base64Encode (a # b # c # bs) =
     [base64Char (a div 4), base64Char (a mod 4 * 16 + b div 16),
      base64Char (b mod 16 * 4 + c div 64), base64Char (c mod 64)] @ base64Encode bs"
| "base64Encode [a, b] =
     [base64Char (a div 4), base64Char (a mod 4 * 16 + b div 16), base64Char (b mod 16 * 4), 61]"
| "base64Encode [a] = [base64Char (a div 4), base64Char (a mod 4 * 16), 61, 61]"
| "base64Encode [] = []"

text \<open>
  \<^verbatim>\<open>Buffer.from(s, 'base64')\<close> never throws. The decoder reads each code unit by
  its low byte (\<^verbatim>\<open>static_cast<uint8_t>\<close>): a byte of neither the standard nor the
  URL-safe alphabet is skipped, decoding ends at the first byte \<^verbatim>\<open>=\<close>, and the bits
  of an incomplete last group that fill no byte are dropped.
\<close>

definition unbase64 :: "nat \<Rightarrow> nat option" where
  "unbase64 c =
     (if 65 \<le> c \<and> c \<le> 90 then Some (c - 65)
      else if 97 \<le> c \<and> c \<le> 122 then Some (c - 71)
      else if 48 \<le> c \<and> c \<le> 57 then Some (c + 4)
      else if c = 43 \<or> c = 45 then Some 62
      else if c = 47 \<or> c = 95 then Some 63
      else None)"

fun base64Sextets :: "jsstring \<Rightarrow> nat list" where
  "base64Sextets [] = []"
| "base64Sextets (c # cs) =
     (if c mod 256 = 61 then []
      else (case unbase64 (c mod 256) of
              Some v \<Rightarrow> v # base64Sextets cs
            | None \<Rightarrow> base64Sextets cs))"

fun base64Bytes :: "nat list \<Rightarrow> nat list" where
  "base64Bytes (a # b # c # d # vs) =
     [a * 4 + b div 16, b mod 16 * 16 + c div 4, c mod 4 * 64 + d] @ base64Bytes vs"
| "base64Bytes [a, b, c] = [a * 4 + b div 16, b mod 16 * 16 + c div 4]"
| "base64Bytes [a, b] = [a * 4 + b div 16]"
| "base64Bytes [a] = []"
| "base64Bytes [] = []"

definition base64Decode :: "jsstring \<Rightarrow> nat list" where
  "base64Decode s = base64Bytes (base64Sextets s)"

text \<open>
  \<^verbatim>\<open>buf.toString()\<close>: the UTF-8 decoder of the Encoding Standard. It never throws: the
  longest prefix of an ill-formed sequence that could begin a well-formed one becomes one
  U+FFFD (65533), and decoding goes on at the byte after it. A code point above U+FFFF
  becomes a surrogate pair.
\<close>

definition isContinuation :: "nat \<Rightarrow> bool" where
  "isContinuation b = (128 \<le> b \<and> b \<le> 191)"

definition codePointUnits :: "nat \<Rightarrow> jsstring" where
  "codePointUnits cp =
     (if cp < 65536 then [cp]
      else [55296 + (cp - 65536) div 1024, 56320 + (cp - 65536) mod 1024])"

fun utf8Decode :: "nat list \<Rightarrow> jsstring" where
  "utf8Decode [] = []"
| "utf8Decode (b # bs) =
     (if b < 128 then b # utf8Decode bs
      else if 194 \<le> b \<and> b \<le> 223 then
        (case bs of
           c # r \<Rightarrow>
             if isContinuation c then ((b - 192) * 64 + (c - 128)) # utf8Decode r
             else 65533 # utf8Decode bs
         | [] \<Rightarrow> [65533])
      else if 224 \<le> b \<and> b \<le> 239 then
        (case bs of
           c # r \<Rightarrow>
             if (if b = 224 then 160 else 128) \<le> c \<and> c \<le> (if b = 237 then 159 else 191) then
               (case r of
                  d # r' \<Rightarrow>
                    if isContinuation d
                    then ((b - 224) * 4096 + (c - 128) * 64 + (d - 128)) # utf8Decode r'
                    else 65533 # utf8Decode r
                | [] \<Rightarrow> [65533])
             else 65533 # utf8Decode bs
         | [] \<Rightarrow> [65533])
      else if 240 \<le> b \<and> b \<le> 244 then
        (case bs of
           c # r \<Rightarrow>
             if (if b = 240 then 144 else 128) \<le> c \<and> c \<le> (if b = 244 then 143 else 191) then
               (case r of
                  d # r' \<Rightarrow>
                    if isContinuation d then
                      (case r' of
                         e # r'' \<Rightarrow>
                           if isContinuation e
                           then codePointUnits ((b - 240) * 262144 + (c - 128) * 4096 +
                                                (d - 128) * 64 + (e - 128)) @ utf8Decode r''
                           else 65533 # utf8Decode r'
                       | [] \<Rightarrow> [65533])
                    else 65533 # utf8Decode r
                | [] \<Rightarrow> [65533])
             else 65533 # utf8Decode bs
         | [] \<Rightarrow> [65533])
      else 65533 # utf8Decode bs)"

subsection \<open>\<^verbatim>\<open>JSON.parse\<close>\<close>

text \<open>
  \<^verbatim>\<open>JSON.parse\<close> without a reviver, as a lexer and a parser over its tokens;
  \<open>None\<close> is the \<^verbatim>\<open>SyntaxError\<close> it throws. The grammar is that of ECMA-404: the
  white space is the space, the tab, the line feed and the carriage return; a string holds
  no code unit below 32 and has the escapes of \<open>simpleEscape\<close> and the \<^verbatim>\<open>u\<close>-escape
  with four hexadecimal digits; a number has no leading zero, and at least one digit after
  a point and in an exponent. (The limit an engine sets on the depth of nesting is not
  modelled.)
\<close>

datatype token = LBrace | RBrace | LBracket | RBracket | Colon | Comma | Scalar jsval

definition isDigit :: "nat \<Rightarrow> bool" where
  "isDigit c = (48 \<le> c \<and> c \<le> 57)"

definition hexValue :: "nat \<Rightarrow> nat option" where
  "hexValue c =
     (if 48 \<le> c \<and> c \<le> 57 then Some (c - 48)
      else if 97 \<le> c \<and> c \<le> 102 then Some (c - 87)
      else if 65 \<le> c \<and> c \<le> 70 then Some (c - 55)
      else None)"

definition simpleEscape :: "nat \<Rightarrow> nat option" where
  "simpleEscape e =
     (if e = 34 then Some 34
      else if e = 92 then Some 92
      else if e = 47 then Some 47
      else if e = 98 then Some 8
      else if e = 102 then Some 12
      else if e = 110 then Some 10
      else if e = 114 then Some 13
      else if e = 116 then Some 9
      else None)"

definition consUnit :: "nat \<Rightarrow> (jsstring \<times> jsstring) option \<Rightarrow> (jsstring \<times> jsstring) option" where
  "consUnit c r = (case r of None \<Rightarrow> None | Some (s, rest) \<Rightarrow> Some (c # s, rest))"

text \<open>
  The string after its opening quote: its value and the text after its closing quote.
\<close>

fun lexString :: "jsstring \<Rightarrow> (jsstring \<times> jsstring) option" where
  "lexString [] = None"
| "lexString (c # cs) =
     (if c = 34 then Some ([], cs)
      else if c = 92 then
        (case cs of
           [] \<Rightarrow> None
         | e # es \<Rightarrow>
             if e = 117 then
               (case es of
                  h1 # h2 # h3 # h4 # r \<Rightarrow>
                    (case (hexValue h1, hexValue h2, hexValue h3, hexValue h4) of
                       (Some a, Some b, Some x, Some y) \<Rightarrow>
                         consUnit (a * 4096 + b * 256 + x * 16 + y) (lexString r)
                     | _ \<Rightarrow> None)
                | _ \<Rightarrow> None)
             else (case simpleEscape e of
                     Some x \<Rightarrow> consUnit x (lexString es)
                   | None \<Rightarrow> None))
      else if c < 32 then None
      else consUnit c (lexString cs))"

text \<open>
  A number: its value and the text after it. The integer part is \<^verbatim>\<open>0\<close> or begins
  with another digit. The value is \<open>Num\<close> for an integer literal below \<open>2^53\<close> in
  absolute value other than \<^verbatim>\<open>-0\<close>, and \<open>NumLit\<close> for every other literal.
\<close>

definition digitsValue :: "jsstring \<Rightarrow> nat" where
  "digitsValue ds = foldl (\<lambda>a d. 10 * a + (d - 48)) 0 ds"

definition lexInteger :: "jsstring \<Rightarrow> (jsstring \<times> jsstring) option" where
  "lexInteger cs =
     (case cs of
        [] \<Rightarrow> None
      | d # r \<Rightarrow>
          if \<not> isDigit d then None
          else if d = 48 then Some ([d], r)
          else Some (d # takeWhile isDigit r, dropWhile isDigit r))"

definition lexFraction :: "jsstring \<Rightarrow> (jsstring \<times> jsstring) option" where
  "lexFraction cs =
     (case cs of
        [] \<Rightarrow> Some ([], [])
      | c # r \<Rightarrow>
          if c = 46 then
            (if takeWhile isDigit r = [] then None
             else Some (c # takeWhile isDigit r, dropWhile isDigit r))
          else Some ([], cs))"

definition lexSign :: "jsstring \<Rightarrow> jsstring \<times> jsstring" where
  "lexSign cs =
     (case cs of
        [] \<Rightarrow> ([], [])
      | s # t \<Rightarrow> if s = 43 \<or> s = 45 then ([s], t) else ([], cs))"

definition lexExponent :: "jsstring \<Rightarrow> (jsstring \<times> jsstring) option" where
  "lexExponent cs =
     (case cs of
        [] \<Rightarrow> Some ([], [])
      | c # r \<Rightarrow>
          if c = 101 \<or> c = 69 then
            (case lexSign r of
               (sg, t) \<Rightarrow>
                 if takeWhile isDigit t = [] then None
                 else Some (c # sg @ takeWhile isDigit t, dropWhile isDigit t))
          else Some ([], cs))"

definition lexNumber :: "jsstring \<Rightarrow> (jsval \<times> jsstring) option" where
  "lexNumber cs =
     (case (case cs of [] \<Rightarrow> (False, []) | c # r \<Rightarrow> if c = 45 then (True, r) else (False, cs)) of
        (neg, cs1) \<Rightarrow>
          (case lexInteger cs1 of
             None \<Rightarrow> None
           | Some (ip, r1) \<Rightarrow>
               (case lexFraction r1 of
                  None \<Rightarrow> None
                | Some (fr, r2) \<Rightarrow>
                    (case lexExponent r2 of
                       None \<Rightarrow> None
                     | Some (ex, r3) \<Rightarrow>
                         Some (if fr = [] \<and> ex = [] \<and> digitsValue ip < 9007199254740992 \<and>
                                  \<not> (neg \<and> digitsValue ip = 0)
                               then Num (if neg then - int (digitsValue ip) else int (digitsValue ip))
                               else NumLit ((if neg then [45] else []) @ ip @ fr @ ex),
                               r3)))))"

text \<open>Both leave less text than they were given: the lexer terminates.\<close>

lemma lexString_length: "lexString cs = Some (s, rest) \<Longrightarrow> length rest < length cs"
proof (induction "length cs" arbitrary: cs s rest rule: less_induct)
  case less
  note IH = less.hyps
  show ?case
  proof (cases cs)
    case Nil
    with less.prems show ?thesis by simp
  next
    case (Cons c cs')
    have step: "length r < length t" if "consUnit x (lexString t) = Some (s, r)" "length t < length cs" for x t r
      using that IH [of t] by (auto simp: consUnit_def split: option.splits prod.splits)
    show ?thesis
      using less.prems Cons
      by (auto split: if_splits list.splits option.splits dest!: step)
  qed
qed

lemma lexInteger_length: "lexInteger cs = Some (t, rest) \<Longrightarrow> length rest < length cs"
  by (auto simp: lexInteger_def less_Suc_eq_le length_dropWhile_le split: list.splits if_splits)

lemma lexFraction_length: "lexFraction cs = Some (t, rest) \<Longrightarrow> length rest \<le> length cs"
  by (auto simp: lexFraction_def le_SucI length_dropWhile_le split: list.splits if_splits)

lemma lexExponent_length: "lexExponent cs = Some (t, rest) \<Longrightarrow> length rest \<le> length cs"
  by (auto simp: lexExponent_def lexSign_def le_SucI length_dropWhile_le
      split: list.splits if_splits prod.splits)

lemma lexNumber_length: "lexNumber cs = Some (v, rest) \<Longrightarrow> length rest < length cs"
  by (cases cs)
     (auto simp: lexNumber_def split: list.splits if_splits prod.splits option.splits
      dest!: lexInteger_length lexFraction_length lexExponent_length)

function lex :: "jsstring \<Rightarrow> token list option" where
  "lex [] = Some []"
| "lex (c # cs) =
     (if c = 32 \<or> c = 9 \<or> c = 10 \<or> c = 13 then lex cs
      else if c = 123 then map_option (Cons LBrace) (lex cs)
      else if c = 125 then map_option (Cons RBrace) (lex cs)
      else if c = 91 then map_option (Cons LBracket) (lex cs)
      else if c = 93 then map_option (Cons RBracket) (lex cs)
      else if c = 58 then map_option (Cons Colon) (lex cs)
      else if c = 44 then map_option (Cons Comma) (lex cs)
      else if c = 34 then
        (case lexString cs of
           None \<Rightarrow> None
         | Some (s, rest) \<Rightarrow> map_option (Cons (Scalar (Str s))) (lex rest))
      else if c = 45 \<or> isDigit c then
        (case lexNumber (c # cs) of
           None \<Rightarrow> None
         | Some (v, rest) \<Rightarrow> map_option (Cons (Scalar v)) (lex rest))
      else if take 4 (c # cs) = js ''true'' then map_option (Cons (Scalar (Boolean True))) (lex (drop 3 cs))
      else if take 5 (c # cs) = js ''false'' then map_option (Cons (Scalar (Boolean False))) (lex (drop 4 cs))
      else if take 4 (c # cs) = js ''null'' then map_option (Cons (Scalar Null)) (lex (drop 3 cs))
      else None)"
  by pat_completeness auto
termination
  apply (relation "measure length")
  apply (auto dest: lexString_length lexNumber_length)
  done

text \<open>
  \<^verbatim>\<open>CreateDataProperty\<close> on the list of an object's properties: a key that is there
  keeps its place and takes the new value; a new key that is an array index goes among the
  array indices, which come first and in ascending order; any other new key goes last.
\<close>

definition arrayIndex :: "jsstring \<Rightarrow> nat option" where
  "arrayIndex k =
     (if k \<noteq> [] \<and> list_all isDigit k \<and> (k = [48] \<or> hd k \<noteq> 48) \<and> digitsValue k < 4294967295
      then Some (digitsValue k) else None)"

definition indexBelow :: "nat \<Rightarrow> jsstring \<times> jsval \<Rightarrow> bool" where
  "indexBelow i p = (case arrayIndex (fst p) of None \<Rightarrow> False | Some j \<Rightarrow> j < i)"

definition CreateDataProperty :: "(jsstring \<times> jsval) list \<Rightarrow> jsstring \<Rightarrow> jsval \<Rightarrow> (jsstring \<times> jsval) list" where
  "CreateDataProperty ms k v =
     (if map_of ms k \<noteq> None then map (\<lambda>p. if fst p = k then (k, v) else p) ms
      else (case arrayIndex k of
              None \<Rightarrow> ms @ [(k, v)]
            | Some i \<Rightarrow> takeWhile (indexBelow i) ms @ [(k, v)] @ dropWhile (indexBelow i) ms))"

text \<open>
  The parser reads the tokens one by one. Its state is what it expects next and the stack of
  the arrays and objects that are open: an array with its elements so far, an object with
  its properties so far, and an object that has read a key and waits for its value.
\<close>

datatype frame =
    InArray "jsval list"
  | InObject "(jsstring \<times> jsval) list"
  | InMember "(jsstring \<times> jsval) list" jsstring

datatype expect = Value | ValueOrEnd | KeyOrEnd | Key | ColonNext | Separator | Result jsval

type_synonym pstate = "expect \<times> frame list"

definition deliver :: "jsval \<Rightarrow> frame list \<Rightarrow> pstate option" where
  "deliver v stack =
     (case stack of
        [] \<Rightarrow> Some (Result v, [])
      | InArray es # st \<Rightarrow> Some (Separator, InArray (es @ [v]) # st)
      | InMember ms k # st \<Rightarrow> Some (Separator, InObject (CreateDataProperty ms k v) # st)
      | InObject ms # st \<Rightarrow> None)"

definition valueToken :: "frame list \<Rightarrow> token \<Rightarrow> pstate option" where
  "valueToken stack t =
     (case t of
        Scalar v \<Rightarrow> deliver v stack
      | LBracket \<Rightarrow> Some (ValueOrEnd, InArray [] # stack)
      | LBrace \<Rightarrow> Some (KeyOrEnd, InObject [] # stack)
      | _ \<Rightarrow> None)"

definition keyToken :: "frame list \<Rightarrow> token \<Rightarrow> pstate option" where
  "keyToken stack t =
     (case (t, stack) of
        (Scalar (Str k), InObject ms # st) \<Rightarrow> Some (ColonNext, InMember ms k # st)
      | _ \<Rightarrow> None)"

definition closeToken :: "frame list \<Rightarrow> token \<Rightarrow> pstate option" where
  "closeToken stack t =
     (case (t, stack) of
        (RBracket, InArray es # st) \<Rightarrow> deliver (Arr es) st
      | (RBrace, InObject ms # st) \<Rightarrow> deliver (Obj ms) st
      | _ \<Rightarrow> None)"

fun step :: "pstate \<Rightarrow> token \<Rightarrow> pstate option" where
  "step (Value, stack) t = valueToken stack t"
| "step (ValueOrEnd, stack) t = (if t = RBracket then closeToken stack t else valueToken stack t)"
| "step (KeyOrEnd, stack) t = (if t = RBrace then closeToken stack t else keyToken stack t)"
| "step (Key, stack) t = keyToken stack t"
| "step (ColonNext, stack) t = (if t = Colon then Some (Value, stack) else None)"
| "step (Separator, stack) t =
     (if t = Comma then
        (case stack of
           InArray es # st \<Rightarrow> Some (Value, stack)
         | InObject ms # st \<Rightarrow> Some (Key, stack)
         | _ \<Rightarrow> None)
      else closeToken stack t)"
| "step (Result v, stack) t = None"

fun parseTokens :: "pstate \<Rightarrow> token list \<Rightarrow> pstate option" where
  "parseTokens st [] = Some st"
| "parseTokens st (t # ts) = (case step st t of None \<Rightarrow> None | Some st' \<Rightarrow> parseTokens st' ts)"

definition JSON_parse :: "jsstring \<Rightarrow> jsval option" where
  "JSON_parse text =
     (case lex text of
        None \<Rightarrow> None
      | Some ts \<Rightarrow>
          (case parseTokens (Value, []) ts of
             Some (Result v, []) \<Rightarrow> Some v
           | _ \<Rightarrow> None))"

subsection \<open>The cursor\<close>

text \<open>
  The two expressions the spec calls the cursor codec.
  \<open>encodeCursor\<close> is \<^verbatim>\<open>Buffer.from(JSON.stringify(searchAfter)).toString('base64')\<close> of
  \<^verbatim>\<open>processSearchResponse\<close>; \<open>decodeCursor\<close> is
  \<^verbatim>\<open>JSON.parse(Buffer.from(cursor, 'base64').toString())\<close> of \<^verbatim>\<open>buildSearchBody\<close>,
  \<open>None\<close> when it throws.
\<close>

definition encodeCursor :: "jsval list \<Rightarrow> jsstring" where
  "encodeCursor searchAfter = base64Encode (utf8Encode (JSON_stringify_array searchAfter))"

definition decodeCursor :: "jsstring \<Rightarrow> jsval option" where
  "decodeCursor cursor = JSON_parse (utf8Decode (base64Decode cursor))"

subsection \<open>The sort resolver\<close>

text \<open>
  \<^verbatim>\<open>getSortFieldMapping(sortField)\<close> is \<^verbatim>\<open>fieldMapping[sortField]\<close>, a property read
  of an object literal with one property for each member of
  \<^verbatim>\<open>SandboxSearchSortField\<close>. The enum's declaration is not among the sources; its
  members are the seven the function names, and \<open>OtherSortField s\<close> is a run-time
  string \<open>s\<close> that is none of them. For such a key the read gives \<^verbatim>\<open>undefined\<close>
  (\<open>NoField\<close>), or, when \<open>s\<close> names a member of \<^verbatim>\<open>Object.prototype\<close>, that member.
  The function has no \<^verbatim>\<open>throw\<close>.
\<close>

datatype mapped = FieldName jsstring | NoField | InheritedMember jsstring

definition objectPrototypeMembers :: "jsstring list" where
  "objectPrototypeMembers =
     map js [''constructor'', ''__defineGetter__'', ''__defineSetter__'', ''hasOwnProperty'',
             ''__lookupGetter__'', ''__lookupSetter__'', ''isPrototypeOf'',
             ''propertyIsEnumerable'', ''toString'', ''valueOf'', ''__proto__'', ''toLocaleString'']"

fun getSortFieldMapping :: "SandboxSearchSortField \<Rightarrow> mapped" where
  "getSortFieldMapping NAME = FieldName (js ''name'')"
| "getSortFieldMapping STATE = FieldName (js ''state'')"
| "getSortFieldMapping CPU = FieldName (js ''cpu'')"
| "getSortFieldMapping MEMORY = FieldName (js ''mem'')"
| "getSortFieldMapping DISK = FieldName (js ''disk'')"
| "getSortFieldMapping LAST_ACTIVITY_AT = FieldName (js ''lastActivityAt'')"
| "getSortFieldMapping CREATED_AT = FieldName (js ''createdAt'')"
| "getSortFieldMapping (OtherSortField s) =
     (if s \<in> set objectPrototypeMembers then InheritedMember s else NoField)"

text \<open>
  The result used as a property key (\<^verbatim>\<open>{ [opensearchSortField]: ... }\<close>,
  \<^verbatim>\<open>_source[opensearchSortField]\<close>) is converted to a string: \<^verbatim>\<open>undefined\<close> to
  \<^verbatim>\<open>"undefined"\<close>, a built-in function to its source text, which names the
  function (the member \<^verbatim>\<open>constructor\<close> is the function \<^verbatim>\<open>Object\<close>; every other
  one is named as the member), and \<^verbatim>\<open>Object.prototype\<close> itself (the value of
  \<^verbatim>\<open>__proto__\<close>) to \<^verbatim>\<open>"[object Object]"\<close>.
\<close>

definition toPropertyKey :: "mapped \<Rightarrow> jsstring" where
  "toPropertyKey m =
     (case m of
        FieldName s \<Rightarrow> s
      | NoField \<Rightarrow> js ''undefined''
      | InheritedMember s \<Rightarrow>
          if s = js ''__proto__'' then js ''[object Object]''
          else js ''function '' @ (if s = js ''constructor'' then js ''Object'' else s) @
               js ''() { [native code] }'')"

subsection \<open>The request\<close>

text \<open>
  \<^verbatim>\<open>Search_RequestBody\<close>, as far as the adapter fills it. \<open>sort_spec\<close> is the
  property \<^verbatim>\<open>sort\<close>: the list of its entries \<^verbatim>\<open>{ [field]: { order } }\<close>, each as the
  pair of the field and the order. \<open>size'\<close> is \<^verbatim>\<open>size\<close>.
\<close>

record SearchBody =
  query :: QueryContainer
  sort_spec :: "(jsstring \<times> jsstring) list"
  size' :: int
  search_after :: "jsval option"

text \<open>
  \<^verbatim>\<open>buildSearchBody(query, limit, cursor?, sortField, sortDirection)\<close>; \<^verbatim>\<open>search\<close>
  passes all five arguments. \<^verbatim>\<open>if (cursor)\<close> is false for \<^verbatim>\<open>undefined\<close> and for
  the empty string. Whatever the \<^verbatim>\<open>try\<close> block throws becomes a
  \<^verbatim>\<open>BadRequestException\<close>; only \<^verbatim>\<open>JSON.parse\<close> throws there: the two calls
  of \<^verbatim>\<open>Buffer\<close> never do, and the \<^verbatim>\<open>JSON.stringify\<close> in the argument of the
  logger is applied to a value \<^verbatim>\<open>JSON.parse\<close> has just returned, which it serializes.
\<close>

definition buildSearchBody ::
  "QueryContainer \<Rightarrow> int \<Rightarrow> jsstring option \<Rightarrow> SandboxSearchSortField \<Rightarrow> SandboxSearchSortDirection
     \<Rightarrow> exn + SearchBody" where
  "buildSearchBody q limit cursor sortField sortDirection =
     (let opensearchSortField = getSortFieldMapping sortField;
          searchBody = \<lparr>query = q,
                        sort_spec = [(toPropertyKey opensearchSortField, sortDirection),
                                     (js ''id'', js ''desc'')],
                        size' = limit + 1,
                        search_after = None\<rparr>
      in case cursor of
           None \<Rightarrow> Inr searchBody
         | Some c \<Rightarrow>
             if c = [] then Inr searchBody
             else (case decodeCursor c of
                     None \<Rightarrow> Inl (BadRequestException (js ''Invalid cursor provided: '' @ c))
                   | Some searchAfter \<Rightarrow> Inr (searchBody\<lparr>search_after := Some searchAfter\<rparr>)))"

subsection \<open>The response\<close>

text \<open>
  A hit of the response with its \<^verbatim>\<open>_source\<close>, the document as an object, and the
  response with \<^verbatim>\<open>response.body.hits?.hits\<close> (\<open>None\<close> when it is not there).
  \<open>getProp\<close> reads a property of a document: \<^verbatim>\<open>undefined\<close> when it has none of that
  name.
\<close>

record Hit =
  source :: "(jsstring \<times> jsval) list"

record SearchResponse =
  hits :: "Hit list option"

definition getProp :: "(jsstring \<times> jsval) list \<Rightarrow> jsstring \<Rightarrow> jsval" where
  "getProp obj k = (case map_of obj k of None \<Rightarrow> Undefined | Some v \<Rightarrow> v)"

text \<open>
  The entity \<^verbatim>\<open>Sandbox\<close> is a class that is not among the sources: an entity is the
  map of its properties, and its constructor is a parameter. \<open>DateOrUndefined v\<close> is
  \<^verbatim>\<open>v ? new Date(v) : undefined\<close>, kept as the expression.
\<close>

datatype fieldValue = Plain jsval | DateOrUndefined jsval

type_synonym Sandbox = "string \<Rightarrow> fieldValue option"

definition mapSourceToSandbox :: "(jsval \<Rightarrow> jsval \<Rightarrow> Sandbox) \<Rightarrow> (jsstring \<times> jsval) list \<Rightarrow> Sandbox" where
  "mapSourceToSandbox newSandbox src =
     (newSandbox (getProp src (js ''region'')) (getProp src (js ''name'')))
       (''id'' \<mapsto> Plain (getProp src (js ''id'')),
        ''organizationId'' \<mapsto> Plain (getProp src (js ''organizationId'')),
        ''runnerId'' \<mapsto> Plain (getProp src (js ''runnerId'')),
        ''class'' \<mapsto> Plain (getProp src (js ''class'')),
        ''state'' \<mapsto> Plain (getProp src (js ''state'')),
        ''desiredState'' \<mapsto> Plain (getProp src (js ''desiredState'')),
        ''snapshot'' \<mapsto> Plain (getProp src (js ''snapshot'')),
        ''osUser'' \<mapsto> Plain (getProp src (js ''osUser'')),
        ''errorReason'' \<mapsto> Plain (getProp src (js ''errorReason'')),
        ''recoverable'' \<mapsto> Plain (getProp src (js ''recoverable'')),
        ''public'' \<mapsto> Plain (getProp src (js ''public'')),
        ''cpu'' \<mapsto> Plain (getProp src (js ''cpu'')),
        ''gpu'' \<mapsto> Plain (getProp src (js ''gpu'')),
        ''mem'' \<mapsto> Plain (getProp src (js ''mem'')),
        ''disk'' \<mapsto> Plain (getProp src (js ''disk'')),
        ''labels'' \<mapsto> Plain (getProp src (js ''labels'')),
        ''backupState'' \<mapsto> Plain (getProp src (js ''backupState'')),
        ''autoStopInterval'' \<mapsto> Plain (getProp src (js ''autoStopInterval'')),
        ''autoArchiveInterval'' \<mapsto> Plain (getProp src (js ''autoArchiveInterval'')),
        ''autoDeleteInterval'' \<mapsto> Plain (getProp src (js ''autoDeleteInterval'')),
        ''createdAt'' \<mapsto> DateOrUndefined (getProp src (js ''createdAt'')),
        ''updatedAt'' \<mapsto> DateOrUndefined (getProp src (js ''updatedAt'')),
        ''lastActivityAt'' \<mapsto> DateOrUndefined (getProp src (js ''lastActivityAt'')))"

text \<open>
  \<^verbatim>\<open>xs.slice(0, n)\<close> for an integer \<open>n\<close>: a negative \<open>n\<close> counts from the end.
\<close>

definition slice0 :: "'a list \<Rightarrow> int \<Rightarrow> 'a list" where
  "slice0 xs n = (if n < 0 then take (length xs - nat (- n)) xs else take (nat n) xs)"

record SandboxSearchResult =
  items :: "Sandbox list"
  nextCursor :: "jsstring option"

text \<open>
  \<^verbatim>\<open>processSearchResponse(response, limit, sortField, sortDirection)\<close>;
  \<open>nextCursor = None\<close> is \<^verbatim>\<open>null\<close>.
\<close>

definition processSearchResponse ::
  "(jsval \<Rightarrow> jsval \<Rightarrow> Sandbox) \<Rightarrow> SearchResponse \<Rightarrow> int \<Rightarrow> SandboxSearchSortField
     \<Rightarrow> SandboxSearchSortDirection \<Rightarrow> SandboxSearchResult" where
  "processSearchResponse newSandbox response limit sortField sortDirection =
     (let hs = (case hits response of None \<Rightarrow> [] | Some xs \<Rightarrow> xs);
          hasMore = (int (length hs) > limit);
          its = (if hasMore then slice0 hs limit else hs);
          cur = (if hasMore \<and> length its > 0
                 then (let lastItem = its ! (length its - 1);
                           opensearchSortField = getSortFieldMapping sortField;
                           searchAfter = [getProp (source lastItem) (toPropertyKey opensearchSortField),
                                          getProp (source lastItem) (js ''id'')]
                       in Some (encodeCursor searchAfter))
                 else None)
      in \<lparr>items = map (\<lambda>hit. mapSourceToSandbox newSandbox (source hit)) its,
          nextCursor = cur\<rparr>)"

subsection \<open>The search\<close>

text \<open>
  \<^verbatim>\<open>search(organizationId, cursor, limit, filters?)\<close>. The call of the client
  (\<^verbatim>\<open>executeSearch\<close>), the constructor of the entity and the two default constants,
  which \<^verbatim>\<open>search-sandboxes-query.dto\<close> declares, are parameters. \<^verbatim>\<open>x || d\<close> is
  \<open>d\<close> when \<open>x\<close> is \<^verbatim>\<open>undefined\<close> or the empty string.
\<close>

definition search ::
  "(SearchBody \<Rightarrow> exn + SearchResponse) \<Rightarrow> (jsval \<Rightarrow> jsval \<Rightarrow> Sandbox)
     \<Rightarrow> SandboxSearchSortField \<Rightarrow> SandboxSearchSortDirection
     \<Rightarrow> jsstring \<Rightarrow> jsstring option \<Rightarrow> int \<Rightarrow> SandboxSearchFilters option
     \<Rightarrow> exn + SandboxSearchResult" where
  "search executeSearch newSandbox DEFAULT_SANDBOX_SEARCH_SORT_FIELD DEFAULT_SANDBOX_SEARCH_SORT_DIRECTION
          organizationId cursor limit filters =
     (if organizationId = [] then Inl (Error (js ''Organization ID is required''))
      else (case buildSearchQuery organizationId filters of
              Inl e \<Rightarrow> Inl e
            | Inr q \<Rightarrow>
                (let sortField = (case opt filters sort' of
                                    None \<Rightarrow> DEFAULT_SANDBOX_SEARCH_SORT_FIELD
                                  | Some f \<Rightarrow> if f = OtherSortField [] then DEFAULT_SANDBOX_SEARCH_SORT_FIELD else f);
                     sortDirection = (case opt filters order' of
                                        None \<Rightarrow> DEFAULT_SANDBOX_SEARCH_SORT_DIRECTION
                                      | Some d \<Rightarrow> if d = [] then DEFAULT_SANDBOX_SEARCH_SORT_DIRECTION else d)
                 in case buildSearchBody q limit cursor sortField sortDirection of
                      Inl e \<Rightarrow> Inl e
                    | Inr searchBody \<Rightarrow>
                        (case executeSearch searchBody of
                           Inl e \<Rightarrow> Inl e
                         | Inr response \<Rightarrow>
                             Inr (processSearchResponse newSandbox response limit sortField sortDirection)))))"

subsection \<open>The index\<close>

text \<open>
  \<^verbatim>\<open>createIndex()\<close> makes at most two calls of the client, both inside one
  \<^verbatim>\<open>try\<close>: \<^verbatim>\<open>indices.exists\<close>, and \<^verbatim>\<open>indices.create\<close> when the first answers that
  there is no index. What each call does is a parameter: it throws, or returns (the first
  with \<^verbatim>\<open>exists.body\<close>). A run ends with what \<^verbatim>\<open>createIndex\<close> throws, if anything,
  and with whether \<^verbatim>\<open>indices.create\<close> was called.
\<close>

definition isAlreadyExists :: "exn \<Rightarrow> bool" where
  "isAlreadyExists e =
     (case e of
        ResponseError t \<Rightarrow> t = Some (js ''resource_already_exists_exception'')
      | _ \<Rightarrow> False)"

record CreateIndexRun =
  thrown :: "exn option"
  createCalled :: bool

text \<open>The \<^verbatim>\<open>catch\<close> block.\<close>

definition catchCreateIndex :: "exn \<Rightarrow> bool \<Rightarrow> CreateIndexRun" where
  "catchCreateIndex e called =
     (if isAlreadyExists e then \<lparr>thrown = None, createCalled = called\<rparr>
      else \<lparr>thrown = Some e, createCalled = called\<rparr>)"

definition createIndex :: "exn + bool \<Rightarrow> exn + unit \<Rightarrow> CreateIndexRun" where
  "createIndex indicesExists indicesCreate =
     (case indicesExists of
        Inl e \<Rightarrow> catchCreateIndex e False
      | Inr ex \<Rightarrow>
          if ex then \<lparr>thrown = None, createCalled = False\<rparr>
          else (case indicesCreate of
                  Inl e \<Rightarrow> catchCreateIndex e True
                | Inr u \<Rightarrow> \<lparr>thrown = None, createCalled = True\<rparr>))"

subsection \<open>Notions the properties are stated with\<close>

text \<open>No date filter is an invalid date: the condition under which the query is built.\<close>

definition datesValid :: "SandboxSearchFilters option \<Rightarrow> bool" where
  "datesValid filters =
     (Some InvalidDate \<notin> {opt filters createdAtAfter, opt filters createdAtBefore,
                              opt filters lastEventAfter, opt filters lastEventBefore})"

text \<open>The range clauses of a list of clauses that are on a given field.\<close>

fun isRangeOn :: "jsstring \<Rightarrow> QueryContainer \<Rightarrow> bool" where
  "isRangeOn field (Range f lo hi) = (f = field)"
| "isRangeOn field q = False"

definition rangesOn :: "jsstring \<Rightarrow> QueryContainer list \<Rightarrow> QueryContainer list" where
  "rangesOn field must = filter (isRangeOn field) must"

text \<open>The filters object with no property set.\<close>

definition noFilters :: SandboxSearchFilters where
  "noFilters = \<lparr>id' = None, name = None, labels = None, includeErroredDeleted = None, states = None,
     snapshots = None, regionIds = None, minCpu = None, maxCpu = None, minMemoryGiB = None,
     maxMemoryGiB = None, minDiskGiB = None, maxDiskGiB = None, isPublic = None,
     isRecoverable = None, createdAtAfter = None, createdAtBefore = None, lastEventAfter = None,
     lastEventBefore = None, sort' = None, order' = None\<rparr>"

text \<open>
  A string of JavaScript: every code unit is below 65536. A valid sort value is what a
  sortable field of a document holds: a string, an integer (of the range a double holds
  exactly, which is the range the model of numbers covers), or \<^verbatim>\<open>null\<close>.
\<close>

definition isString :: "jsstring \<Rightarrow> bool" where
  "isString s = list_all (\<lambda>c. c < 65536) s"

definition validSortValue :: "jsval \<Rightarrow> bool" where
  "validSortValue v =
     (case v of
        Str s \<Rightarrow> isString s
      | Num n \<Rightarrow> \<bar>n\<bar> < 9007199254740992
      | Null \<Rightarrow> True
      | _ \<Rightarrow> False)"

text \<open>
  A well-formed string: every surrogate is part of a pair, a leading one followed by a
  trailing one. These are the strings UTF-8 encodes without loss.
\<close>

fun wellFormed :: "jsstring \<Rightarrow> bool" where
  "wellFormed [] = True"
| "wellFormed [c] = (c < 65536 \<and> \<not> isLeadingSurrogate c \<and> \<not> isTrailingSurrogate c)"
| "wellFormed (c # d # cs) =
     (if isLeadingSurrogate c \<and> isTrailingSurrogate d then wellFormed cs
      else c < 65536 \<and> \<not> isLeadingSurrogate c \<and> \<not> isTrailingSurrogate c \<and> wellFormed (d # cs))"

section \<open>Properties\<close>

subsection \<open>The filter compiler\<close>

lemma dateRangeClause_cases:
  "dateRangeClause field a b =
     (if a = Some InvalidDate \<or> b = Some InvalidDate then Inl RangeError
      else Inr (if a \<noteq> None \<or> b \<noteq> None
                then [Range field (map_option (\<lambda>d. case d of Time t \<Rightarrow> QIso t) a)
                                  (map_option (\<lambda>d. case d of Time t \<Rightarrow> QIso t) b)]
                else []))"
  by (auto simp: dateRangeClause_def dateBound_def toISOString_def split: option.splits Date.splits)

lemma buildSearchQuery_Inr:
  assumes "datesValid filters"
  shows "\<exists>created lastActivity.
     dateRangeClause (js ''createdAt'') (opt filters createdAtAfter) (opt filters createdAtBefore) = Inr created \<and>
     dateRangeClause (js ''lastActivityAt'') (opt filters lastEventAfter) (opt filters lastEventBefore) = Inr lastActivity \<and>
     buildSearchQuery organizationId filters =
       Inr (Bool ([Term (js ''organizationId'') (QStr organizationId)]
                  @ prefixClause (js ''id'') (opt filters id')
                  @ prefixClause (js ''name'') (opt filters name)
                  @ termsClause (js ''state'') (map_option (map QState) (opt filters states))
                  @ termsClause (js ''snapshot'') (map_option (map QStr) (opt filters snapshots))
                  @ termsClause (js ''region'') (map_option (map QStr) (opt filters regionIds))
                  @ rangeClause (js ''cpu'') (opt filters minCpu) (opt filters maxCpu)
                  @ rangeClause (js ''mem'') (opt filters minMemoryGiB) (opt filters maxMemoryGiB)
                  @ rangeClause (js ''disk'') (opt filters minDiskGiB) (opt filters maxDiskGiB)
                  @ boolClause (js ''public'') (opt filters isPublic)
                  @ boolClause (js ''recoverable'') (opt filters isRecoverable)
                  @ created @ lastActivity @ labelClauses (opt filters labels))
              (if opt filters includeErroredDeleted \<noteq> Some True then Some [erroredDeleted] else None))"
  using assms
  by (auto simp: buildSearchQuery_def datesValid_def dateRangeClause_cases Let_def)

lemma buildSearchQuery_Inl:
  "\<not> datesValid filters \<Longrightarrow> buildSearchQuery organizationId filters = Inl RangeError"
  by (auto simp: buildSearchQuery_def datesValid_def dateRangeClause_cases Let_def)

text \<open>
  C1. For every organization id and every filters object, absent or not, the query that
  \<open>buildSearchQuery\<close> returns is a \<open>bool\<close> query whose \<open>must\<close> list holds the
  term clause \<open>organizationId = organizationId\<close> (it is the first clause). The function
  returns a query for every input but one with an invalid date among its date filters,
  where \<open>toISOString\<close> throws and no query is returned.
\<close>

theorem buildSearchQuery_organization_clause:
  "(datesValid filters \<and>
     (\<exists>rest mustNot. buildSearchQuery organizationId filters =
        Inr (Bool (Term (js ''organizationId'') (QStr organizationId) # rest) mustNot)))
   \<or> (\<not> datesValid filters \<and> buildSearchQuery organizationId filters = Inl RangeError)"
  by (auto simp: buildSearchQuery_def datesValid_def dateRangeClause_cases Let_def)

theorem buildSearchQuery_organization_clause_witness:
  "\<exists>rest mustNot. buildSearchQuery (js ''org-1'') None =
     Inr (Bool (Term (js ''organizationId'') (QStr (js ''org-1'')) # rest) mustNot)"
  using buildSearchQuery_organization_clause [of None "js ''org-1''"]
  by (simp add: datesValid_def opt_def)

text \<open>
  C2. When \<open>includeErroredDeleted\<close> is absent or false (or the filters are absent), the
  query's \<open>must_not\<close> is the one sub-clause
  \<open>bool must [state = ERROR, desiredState = DESTROYED]\<close>; when it is true the query has
  no \<open>must_not\<close> at all.
\<close>

theorem buildSearchQuery_default_exclusion:
  "(datesValid filters \<and>
     (\<exists>must. buildSearchQuery organizationId filters =
        Inr (Bool must
          (if opt filters includeErroredDeleted = Some True then None
           else Some [Bool [Term (js ''state'') (QState SandboxState.ERROR),
                            Term (js ''desiredState'') (QDesiredState SandboxDesiredState.DESTROYED)] None]))))
   \<or> (\<not> datesValid filters \<and> buildSearchQuery organizationId filters = Inl RangeError)"
  by (auto simp: buildSearchQuery_def datesValid_def dateRangeClause_cases Let_def erroredDeleted_def)

theorem buildSearchQuery_default_exclusion_witness:
  "\<exists>must. buildSearchQuery (js ''org-1'') None =
     Inr (Bool must
        (Some [Bool [Term (js ''state'') (QState SandboxState.ERROR),
                     Term (js ''desiredState'') (QDesiredState SandboxDesiredState.DESTROYED)] None]))"
  using buildSearchQuery_default_exclusion [of None "js ''org-1''"]
  by (simp add: datesValid_def opt_def)

lemma rangesOn_append: "rangesOn f (xs @ ys) = rangesOn f xs @ rangesOn f ys"
  by (simp add: rangesOn_def)

lemma rangesOn_Term: "rangesOn f (Term g v # xs) = rangesOn f xs"
  by (simp add: rangesOn_def)

lemma rangesOn_Nil: "rangesOn f [] = []"
  by (simp add: rangesOn_def)

lemma rangesOn_prefixClause: "rangesOn f (prefixClause g v) = []"
  by (simp add: rangesOn_def prefixClause_def split: option.splits)

lemma rangesOn_termsClause: "rangesOn f (termsClause g v) = []"
  by (simp add: rangesOn_def termsClause_def split: option.splits)

lemma rangesOn_boolClause: "rangesOn f (boolClause g v) = []"
  by (simp add: rangesOn_def boolClause_def split: option.splits)

lemma rangesOn_labelClauses: "rangesOn f (labelClauses ls) = []"
  by (auto simp: rangesOn_def labelClauses_def filter_empty_conv split: option.splits)

lemma rangesOn_rangeClause:
  "rangesOn f (rangeClause g lo hi) = (if f = g then rangeClause g lo hi else [])"
  by (simp add: rangesOn_def rangeClause_def)

lemma rangesOn_dateRange:
  "dateRangeClause g a b = Inr cs \<Longrightarrow> f \<noteq> g \<Longrightarrow> rangesOn f cs = []"
  by (auto simp: rangesOn_def dateRangeClause_cases split: if_splits)

lemma js_fields:
  "js ''cpu'' \<noteq> js ''mem''" "js ''cpu'' \<noteq> js ''disk''" "js ''mem'' \<noteq> js ''disk''"
  "js ''cpu'' \<noteq> js ''createdAt''" "js ''mem'' \<noteq> js ''createdAt''" "js ''disk'' \<noteq> js ''createdAt''"
  "js ''cpu'' \<noteq> js ''lastActivityAt''" "js ''mem'' \<noteq> js ''lastActivityAt''" "js ''disk'' \<noteq> js ''lastActivityAt''"
  by (simp_all add: js_def)

text \<open>
  C9. For each of the numeric ranges (\<open>minCpu\<close>/\<open>maxCpu\<close> on \<open>cpu\<close>,
  \<open>minMemoryGiB\<close>/\<open>maxMemoryGiB\<close> on \<open>mem\<close>, \<open>minDiskGiB\<close>/\<open>maxDiskGiB\<close> on
  \<open>disk\<close>): the range clauses of the \<open>must\<close> list on that field are none when both
  bounds are absent, and otherwise exactly one, whose \<open>gte\<close> is the lower bound when
  that is supplied and is absent when it is not, and whose \<open>lte\<close> is the upper bound
  likewise.
\<close>

theorem buildSearchQuery_numeric_ranges:
  "(datesValid filters \<and>
     (\<exists>must mustNot. buildSearchQuery organizationId filters = Inr (Bool must mustNot) \<and>
        rangesOn (js ''cpu'') must =
          (if opt filters minCpu = None \<and> opt filters maxCpu = None then []
           else [Range (js ''cpu'') (map_option QNum (opt filters minCpu))
                                    (map_option QNum (opt filters maxCpu))]) \<and>
        rangesOn (js ''mem'') must =
          (if opt filters minMemoryGiB = None \<and> opt filters maxMemoryGiB = None then []
           else [Range (js ''mem'') (map_option QNum (opt filters minMemoryGiB))
                                    (map_option QNum (opt filters maxMemoryGiB))]) \<and>
        rangesOn (js ''disk'') must =
          (if opt filters minDiskGiB = None \<and> opt filters maxDiskGiB = None then []
           else [Range (js ''disk'') (map_option QNum (opt filters minDiskGiB))
                                     (map_option QNum (opt filters maxDiskGiB))])))
   \<or> (\<not> datesValid filters \<and> buildSearchQuery organizationId filters = Inl RangeError)"
proof (cases "datesValid filters")
  case True
  from buildSearchQuery_Inr [OF True, of organizationId]
  obtain created lastActivity where
    c: "dateRangeClause (js ''createdAt'') (opt filters createdAtAfter) (opt filters createdAtBefore) = Inr created"
    and l: "dateRangeClause (js ''lastActivityAt'') (opt filters lastEventAfter) (opt filters lastEventBefore) = Inr lastActivity"
    and q: "buildSearchQuery organizationId filters =
       Inr (Bool ([Term (js ''organizationId'') (QStr organizationId)]
                  @ prefixClause (js ''id'') (opt filters id')
                  @ prefixClause (js ''name'') (opt filters name)
                  @ termsClause (js ''state'') (map_option (map QState) (opt filters states))
                  @ termsClause (js ''snapshot'') (map_option (map QStr) (opt filters snapshots))
                  @ termsClause (js ''region'') (map_option (map QStr) (opt filters regionIds))
                  @ rangeClause (js ''cpu'') (opt filters minCpu) (opt filters maxCpu)
                  @ rangeClause (js ''mem'') (opt filters minMemoryGiB) (opt filters maxMemoryGiB)
                  @ rangeClause (js ''disk'') (opt filters minDiskGiB) (opt filters maxDiskGiB)
                  @ boolClause (js ''public'') (opt filters isPublic)
                  @ boolClause (js ''recoverable'') (opt filters isRecoverable)
                  @ created @ lastActivity @ labelClauses (opt filters labels))
              (if opt filters includeErroredDeleted \<noteq> Some True then Some [erroredDeleted] else None))"
    by blast
  note dr = rangesOn_dateRange [OF c] rangesOn_dateRange [OF l]
  note simps = rangesOn_append rangesOn_Term rangesOn_Nil rangesOn_prefixClause rangesOn_termsClause
    rangesOn_boolClause rangesOn_labelClauses rangesOn_rangeClause js_fields js_fields [symmetric] dr
  show ?thesis
    unfolding q using True
    by (simp add: simps) (simp add: rangeClause_def)
next
  case False
  then show ?thesis by (simp add: buildSearchQuery_Inl)
qed

theorem buildSearchQuery_numeric_ranges_witness:
  "\<exists>must mustNot.
     buildSearchQuery (js ''org-1'') (Some (noFilters\<lparr>minCpu := Some 2, maxDiskGiB := Some 10\<rparr>)) =
       Inr (Bool must mustNot) \<and>
     rangesOn (js ''cpu'') must = [Range (js ''cpu'') (Some (QNum 2)) None] \<and>
     rangesOn (js ''mem'') must = [] \<and>
     rangesOn (js ''disk'') must = [Range (js ''disk'') None (Some (QNum 10))]"
  using buildSearchQuery_numeric_ranges
    [of "Some (noFilters\<lparr>minCpu := Some 2, maxDiskGiB := Some 10\<rparr>)" "js ''org-1''"]
  by (simp add: datesValid_def opt_def noFilters_def)

lemma buildSearchQuery_empty_id:
  "buildSearchQuery organizationId (Some (f\<lparr>id' := Some []\<rparr>)) =
   buildSearchQuery organizationId (Some (f\<lparr>id' := None\<rparr>))"
  by (simp add: buildSearchQuery_def opt_def prefixClause_def cong del: sum.case_cong_weak)

lemma buildSearchQuery_empty_name:
  "buildSearchQuery organizationId (Some (f\<lparr>name := Some []\<rparr>)) =
   buildSearchQuery organizationId (Some (f\<lparr>name := None\<rparr>))"
  by (simp add: buildSearchQuery_def opt_def prefixClause_def cong del: sum.case_cong_weak)

lemma buildSearchQuery_empty_states:
  "buildSearchQuery organizationId (Some (f\<lparr>states := Some []\<rparr>)) =
   buildSearchQuery organizationId (Some (f\<lparr>states := None\<rparr>))"
  by (simp add: buildSearchQuery_def opt_def termsClause_def cong del: sum.case_cong_weak)

lemma buildSearchQuery_empty_snapshots:
  "buildSearchQuery organizationId (Some (f\<lparr>snapshots := Some []\<rparr>)) =
   buildSearchQuery organizationId (Some (f\<lparr>snapshots := None\<rparr>))"
  by (simp add: buildSearchQuery_def opt_def termsClause_def cong del: sum.case_cong_weak)

lemma buildSearchQuery_empty_regionIds:
  "buildSearchQuery organizationId (Some (f\<lparr>regionIds := Some []\<rparr>)) =
   buildSearchQuery organizationId (Some (f\<lparr>regionIds := None\<rparr>))"
  by (simp add: buildSearchQuery_def opt_def termsClause_def cong del: sum.case_cong_weak)

lemma search_cong_filters:
  assumes "buildSearchQuery organizationId f = buildSearchQuery organizationId g"
    and "opt f sort' = opt g sort'" and "opt f order' = opt g order'"
  shows "search executeSearch newSandbox dField dDirection organizationId cursor limit f =
         search executeSearch newSandbox dField dDirection organizationId cursor limit g"
  by (simp only: search_def assms)

text \<open>
  C10. An \<open>id\<close> or \<open>name\<close> filter that is the empty string, and a \<open>states\<close>,
  \<open>snapshots\<close> or \<open>regionIds\<close> filter that is the empty array, is the same as the
  filter being absent: the compiled query is the same query, clause for clause, and so is
  everything \<open>search\<close> does and returns (whatever the client, the cursor, the limit
  and the other filters).
\<close>

theorem search_empty_filters:
  "buildSearchQuery organizationId (Some (f\<lparr>id' := Some []\<rparr>)) =
     buildSearchQuery organizationId (Some (f\<lparr>id' := None\<rparr>)) \<and>
   buildSearchQuery organizationId (Some (f\<lparr>name := Some []\<rparr>)) =
     buildSearchQuery organizationId (Some (f\<lparr>name := None\<rparr>)) \<and>
   buildSearchQuery organizationId (Some (f\<lparr>states := Some []\<rparr>)) =
     buildSearchQuery organizationId (Some (f\<lparr>states := None\<rparr>)) \<and>
   buildSearchQuery organizationId (Some (f\<lparr>snapshots := Some []\<rparr>)) =
     buildSearchQuery organizationId (Some (f\<lparr>snapshots := None\<rparr>)) \<and>
   buildSearchQuery organizationId (Some (f\<lparr>regionIds := Some []\<rparr>)) =
     buildSearchQuery organizationId (Some (f\<lparr>regionIds := None\<rparr>)) \<and>
   search executeSearch newSandbox dField dDirection organizationId cursor limit (Some (f\<lparr>id' := Some []\<rparr>)) =
     search executeSearch newSandbox dField dDirection organizationId cursor limit (Some (f\<lparr>id' := None\<rparr>)) \<and>
   search executeSearch newSandbox dField dDirection organizationId cursor limit (Some (f\<lparr>name := Some []\<rparr>)) =
     search executeSearch newSandbox dField dDirection organizationId cursor limit (Some (f\<lparr>name := None\<rparr>)) \<and>
   search executeSearch newSandbox dField dDirection organizationId cursor limit (Some (f\<lparr>states := Some []\<rparr>)) =
     search executeSearch newSandbox dField dDirection organizationId cursor limit (Some (f\<lparr>states := None\<rparr>)) \<and>
   search executeSearch newSandbox dField dDirection organizationId cursor limit (Some (f\<lparr>snapshots := Some []\<rparr>)) =
     search executeSearch newSandbox dField dDirection organizationId cursor limit (Some (f\<lparr>snapshots := None\<rparr>)) \<and>
   search executeSearch newSandbox dField dDirection organizationId cursor limit (Some (f\<lparr>regionIds := Some []\<rparr>)) =
     search executeSearch newSandbox dField dDirection organizationId cursor limit (Some (f\<lparr>regionIds := None\<rparr>))"
  by (intro conjI buildSearchQuery_empty_id buildSearchQuery_empty_name buildSearchQuery_empty_states
        buildSearchQuery_empty_snapshots buildSearchQuery_empty_regionIds search_cong_filters)
     (simp_all add: opt_def)

theorem search_empty_filters_witness:
  "buildSearchQuery (js ''org-1'') (Some (noFilters\<lparr>id' := Some []\<rparr>)) =
     Inr (Bool [Term (js ''organizationId'') (QStr (js ''org-1''))]
            (Some [Bool [Term (js ''state'') (QState SandboxState.ERROR),
                         Term (js ''desiredState'') (QDesiredState SandboxDesiredState.DESTROYED)] None]))"
  using search_empty_filters [of "js ''org-1''" noFilters]
  by (simp add: buildSearchQuery_def erroredDeleted_def noFilters_def opt_def prefixClause_def
      termsClause_def rangeClause_def boolClause_def dateRangeClause_def labelClauses_def)

subsection \<open>The sort resolver and the request\<close>

lemmas parse_eval = js_def JSON_parse_def isDigit_def lexNumber_def lexInteger_def lexFraction_def
  lexExponent_def lexSign_def digitsValue_def consUnit_def hexValue_def simpleEscape_def
  valueToken_def keyToken_def closeToken_def deliver_def CreateDataProperty_def arrayIndex_def
  indexBelow_def

lemmas decode_eval = parse_eval decodeCursor_def base64Decode_def unbase64_def isContinuation_def
  codePointUnits_def

lemmas encode_eval = js_def encodeCursor_def JSON_stringify_array_def joinWith_def QuoteJSONString_def
  quoteCodeUnit_def isLeadingSurrogate_def isTrailingSurrogate_def base64Char_def numberToString_def

text \<open>
  C5. For every sort field and direction, \<open>buildSearchBody\<close> either returns a body
  whose sort has exactly two levels, first the field \<open>getSortFieldMapping\<close> resolves
  the sort field to, in the requested direction, then \<open>id\<close> in the order \<open>desc\<close>,
  or it is given a non-empty cursor that does not decode and throws. The size of the body
  is \<open>limit + 1\<close>.
\<close>

theorem buildSearchBody_sort:
  "(\<exists>searchAfter. buildSearchBody q limit cursor sortField sortDirection =
       Inr \<lparr>query = q,
            sort_spec = [(toPropertyKey (getSortFieldMapping sortField), sortDirection),
                         (js ''id'', js ''desc'')],
            size' = limit + 1,
            search_after = searchAfter\<rparr>)
   \<or> (\<exists>c. cursor = Some c \<and> c \<noteq> [] \<and> decodeCursor c = None \<and>
          buildSearchBody q limit cursor sortField sortDirection =
            Inl (BadRequestException (js ''Invalid cursor provided: '' @ c)))"
  by (auto simp: buildSearchBody_def Let_def split: option.splits)

theorem buildSearchBody_sort_witness:
  "\<exists>searchAfter. buildSearchBody (Bool [] None) 20 None MEMORY (js ''asc'') =
     Inr \<lparr>query = Bool [] None,
          sort_spec = [(js ''mem'', js ''asc''), (js ''id'', js ''desc'')],
          size' = 21,
          search_after = searchAfter\<rparr>"
  using buildSearchBody_sort [of "Bool [] None" 20 None MEMORY "js ''asc''"]
  by (simp add: toPropertyKey_def)

text \<open>
  C7, as the claim states it, fails: for a sort field outside the known set the resolver
  throws nothing. It returns \<^verbatim>\<open>undefined\<close>, and \<open>buildSearchBody\<close> goes on to build
  a body that sorts on a field named \<^verbatim>\<open>undefined\<close>.
\<close>

theorem getSortFieldMapping_unknown_counterexample:
  "getSortFieldMapping (OtherSortField (js ''bogus'')) = NoField \<and>
   buildSearchBody (Bool [] None) 20 None (OtherSortField (js ''bogus'')) (js ''asc'') =
     Inr \<lparr>query = Bool [] None,
          sort_spec = [(js ''undefined'', js ''asc''), (js ''id'', js ''desc'')],
          size' = 21,
          search_after = None\<rparr>"
  by (simp add: buildSearchBody_def toPropertyKey_def objectPrototypeMembers_def js_def)

text \<open>
  C7, amended. The resolver maps each known sort field by the fixed table (\<open>name\<close> to
  \<open>name\<close>, \<open>state\<close> to \<open>state\<close>, \<open>cpu\<close> to \<open>cpu\<close>, \<open>memory\<close> to \<open>mem\<close>,
  \<open>disk\<close> to \<open>disk\<close>, \<open>lastActivityAt\<close> to \<open>lastActivityAt\<close>, \<open>createdAt\<close> to
  \<open>createdAt\<close>) and never fails: for an input outside the known set it returns no field
  name, which is \<^verbatim>\<open>undefined\<close> unless the input names a member of
  \<^verbatim>\<open>Object.prototype\<close>.
\<close>

theorem getSortFieldMapping_table:
  "getSortFieldMapping NAME = FieldName (js ''name'') \<and>
   getSortFieldMapping STATE = FieldName (js ''state'') \<and>
   getSortFieldMapping CPU = FieldName (js ''cpu'') \<and>
   getSortFieldMapping MEMORY = FieldName (js ''mem'') \<and>
   getSortFieldMapping DISK = FieldName (js ''disk'') \<and>
   getSortFieldMapping LAST_ACTIVITY_AT = FieldName (js ''lastActivityAt'') \<and>
   getSortFieldMapping CREATED_AT = FieldName (js ''createdAt'') \<and>
   getSortFieldMapping (OtherSortField s) =
     (if s \<in> set objectPrototypeMembers then InheritedMember s else NoField)"
  by simp

theorem getSortFieldMapping_table_witness:
  "getSortFieldMapping (OtherSortField (js ''priority'')) = NoField \<and>
   getSortFieldMapping (OtherSortField (js ''toString'')) = InheritedMember (js ''toString'')"
  using getSortFieldMapping_table [of "js ''priority''"] getSortFieldMapping_table [of "js ''toString''"]
  by (simp add: objectPrototypeMembers_def js_def)

text \<open>
  C6, as the claim states it, fails: the cursor \<^verbatim>\<open>e30=\<close> is the base64 of \<^verbatim>\<open>{}\<close>,
  which is no two-element sequence, and it is not rejected. \<open>buildSearchBody\<close> returns
  a body whose \<open>search_after\<close> is the empty object.
\<close>

theorem buildSearchBody_cursor_counterexample:
  "buildSearchBody (Bool [] None) 20 (Some (js ''e30='')) NAME (js ''asc'') =
     Inr \<lparr>query = Bool [] None,
          sort_spec = [(js ''name'', js ''asc''), (js ''id'', js ''desc'')],
          size' = 21,
          search_after = Some (Obj [])\<rparr>"
  by (simp add: buildSearchBody_def toPropertyKey_def decode_eval)

text \<open>
  C6, amended. Decoding a cursor fails if and only if the cursor is not empty and the text
  its base64 decoding yields is not JSON (\<^verbatim>\<open>JSON.parse\<close> throws); the error is then a
  \<^verbatim>\<open>BadRequestException\<close> that quotes the cursor. A cursor that decodes to any JSON
  value, a two-element sequence or not, is accepted, and the value becomes
  \<open>search_after\<close>; an absent or empty cursor is not decoded.
\<close>

theorem buildSearchBody_invalid_cursor:
  "(\<exists>e. buildSearchBody q limit cursor sortField sortDirection = Inl e) =
     (\<exists>c. cursor = Some c \<and> c \<noteq> [] \<and> JSON_parse (utf8Decode (base64Decode c)) = None)
   \<and> (\<forall>e. buildSearchBody q limit cursor sortField sortDirection = Inl e \<longrightarrow>
          (\<exists>c. cursor = Some c \<and> e = BadRequestException (js ''Invalid cursor provided: '' @ c)))
   \<and> (\<forall>c v. cursor = Some c \<and> c \<noteq> [] \<and> JSON_parse (utf8Decode (base64Decode c)) = Some v \<longrightarrow>
          (\<exists>b. buildSearchBody q limit cursor sortField sortDirection = Inr b \<and> search_after b = Some v))"
  by (auto simp: buildSearchBody_def decodeCursor_def Let_def split: option.splits)

theorem buildSearchBody_invalid_cursor_witness:
  "JSON_parse (utf8Decode (base64Decode (js ''ew==''))) = None \<and>
   (\<exists>e. buildSearchBody (Bool [] None) 20 (Some (js ''ew=='')) NAME (js ''asc'') = Inl e) \<and>
   JSON_parse (utf8Decode (base64Decode [357, 51, 48, 61])) = Some (Obj []) \<and>
   (\<exists>b. buildSearchBody (Bool [] None) 20 (Some [357, 51, 48, 61]) NAME (js ''asc'') = Inr b \<and>
        search_after b = Some (Obj []))"
  using buildSearchBody_invalid_cursor [of "Bool [] None" 20 "Some (js ''ew=='')" NAME "js ''asc''"]
    buildSearchBody_invalid_cursor [of "Bool [] None" 20 "Some [357, 51, 48, 61]" NAME "js ''asc''"]
  by (simp add: decode_eval)

subsection \<open>The cursor codec\<close>

text \<open>Base64: decoding undoes encoding, on bytes.\<close>

lemma unbase64_base64Char: "n < 64 \<Longrightarrow> unbase64 (base64Char n) = Some n"
  by (auto simp: unbase64_def base64Char_def)

lemma base64Char_not_pad: "n < 64 \<Longrightarrow> base64Char n \<noteq> 61"
  by (auto simp: base64Char_def)

lemma base64Char_byte: "n < 64 \<Longrightarrow> base64Char n mod 256 = base64Char n"
  by (auto simp: base64Char_def)

lemma base64Sextets_char:
  "n < 64 \<Longrightarrow> base64Sextets (base64Char n # cs) = n # base64Sextets cs"
  by (simp add: unbase64_base64Char base64Char_not_pad base64Char_byte)

lemma base64Sextets_pad: "base64Sextets (61 # cs) = []"
  by simp

lemma sextet_bounds:
  fixes a b c :: nat
  assumes "a < 256" "b < 256" "c < 256"
  shows "a div 4 < 64" "a mod 4 * 16 + b div 16 < 64" "b mod 16 * 4 + c div 64 < 64" "c mod 64 < 64"
    "a mod 4 * 16 < 64" "b mod 16 * 4 < 64"
  using assms by auto

lemma sextet_join:
  fixes a b c :: nat
  assumes "a < 256" "b < 256" "c < 256"
  shows "a div 4 * 4 + (a mod 4 * 16 + b div 16) div 16 = a"
    and "(a mod 4 * 16 + b div 16) mod 16 * 16 + (b mod 16 * 4 + c div 64) div 4 = b"
    and "(b mod 16 * 4 + c div 64) mod 4 * 64 + c mod 64 = c"
    and "a div 4 * 4 + (a mod 4 * 16) div 16 = a"
    and "(a mod 4 * 16 + b div 16) mod 16 * 16 + (b mod 16 * 4) div 4 = b"
  using assms by (simp_all add: div_mult2_eq [symmetric])

lemma base64_roundtrip:
  "list_all (\<lambda>b. b < 256) bs \<Longrightarrow> base64Decode (base64Encode bs) = bs"
proof (induction bs rule: base64Encode.induct)
  case (1 a b c bs)
  then have lt: "a < 256" "b < 256" "c < 256" and rest: "list_all (\<lambda>b. b < 256) bs"
    by simp_all
  from 1 rest have IH: "base64Bytes (base64Sextets (base64Encode bs)) = bs"
    by (simp add: base64Decode_def)
  show ?case
    using sextet_bounds [OF lt] sextet_join [OF lt] IH
    by (simp add: base64Decode_def base64Sextets_char base64Sextets_pad del: base64Sextets.simps(2))
next
  case (2 a b)
  then have lt: "a < 256" "b < 256" "(0::nat) < 256" by simp_all
  show ?case
    using sextet_bounds [OF lt] sextet_join [OF lt]
    by (simp add: base64Decode_def base64Sextets_char base64Sextets_pad del: base64Sextets.simps(2))
next
  case (3 a)
  then have lt: "a < 256" "(0::nat) < 256" "(0::nat) < 256" by simp_all
  show ?case
    using sextet_bounds [OF lt] sextet_join [OF lt]
    by (simp add: base64Decode_def base64Sextets_char base64Sextets_pad del: base64Sextets.simps(2))
next
  case 4
  show ?case by (simp add: base64Decode_def)
qed

text \<open>UTF-8: decoding undoes encoding, on well-formed strings.\<close>

lemma split3: "(c::nat) div 4096 * 4096 + c div 64 mod 64 * 64 + c mod 64 = c"
proof -
  have "c mod 4096 = c mod (64 * 64)" by simp
  also have "\<dots> = 64 * (c div 64 mod 64) + c mod 64" by (rule mod_mult2_eq)
  finally have "c div 4096 * 4096 + (64 * (c div 64 mod 64) + c mod 64) = c"
    by (metis div_mult_mod_eq)
  then show ?thesis by (simp add: mult.commute)
qed

lemma split4:
  "(c::nat) div 262144 * 262144 + c div 4096 mod 64 * 4096 + c div 64 mod 64 * 64 + c mod 64 = c"
proof -
  have "c mod 262144 = c mod (4096 * 64)" by simp
  also have "\<dots> = 4096 * (c div 4096 mod 64) + c mod 4096" by (rule mod_mult2_eq)
  finally have a: "c div 262144 * 262144 + (4096 * (c div 4096 mod 64) + c mod 4096) = c"
    by (metis div_mult_mod_eq)
  have "c mod 4096 = c mod (64 * 64)" by simp
  also have "\<dots> = 64 * (c div 64 mod 64) + c mod 64" by (rule mod_mult2_eq)
  finally have b: "c mod 4096 = c div 64 mod 64 * 64 + c mod 64" by (simp add: mult.commute)
  from a b show ?thesis by (simp add: mult.commute)
qed

lemma mid_digit: "(c::nat) div 64 mod 64 = c div 64 - 64 * (c div 4096)"
proof -
  have "c div 64 div 64 = c div 4096" by (simp add: div_mult2_eq [symmetric])
  then show ?thesis by (metis minus_mult_div_eq_mod)
qed

lemma high_digit: "(c::nat) div 4096 mod 64 = c div 4096 - 64 * (c div 262144)"
proof -
  have "c div 4096 div 64 = c div 262144" by (simp add: div_mult2_eq [symmetric])
  then show ?thesis by (metis minus_mult_div_eq_mod)
qed

lemma utf8Decode_2':
  "2 \<le> x \<Longrightarrow> x < 32 \<Longrightarrow> y < 64 \<Longrightarrow>
   utf8Decode ((192 + x) # (128 + y) # bs) = (x * 64 + y) # utf8Decode bs"
  by (simp add: isContinuation_def)

lemma utf8Decode_3':
  "x < 16 \<Longrightarrow> y < 64 \<Longrightarrow> z < 64 \<Longrightarrow> (x = 0 \<longrightarrow> 32 \<le> y) \<Longrightarrow> (x = 13 \<longrightarrow> y \<le> 31) \<Longrightarrow>
   utf8Decode ((224 + x) # (128 + y) # (128 + z) # bs) = (x * 4096 + y * 64 + z) # utf8Decode bs"
  by (simp add: isContinuation_def)

lemma utf8Decode_4':
  "w < 5 \<Longrightarrow> x < 64 \<Longrightarrow> y < 64 \<Longrightarrow> z < 64 \<Longrightarrow> (w = 0 \<longrightarrow> 16 \<le> x) \<Longrightarrow> (w = 4 \<longrightarrow> x \<le> 15) \<Longrightarrow>
   utf8Decode ((240 + w) # (128 + x) # (128 + y) # (128 + z) # bs) =
     codePointUnits (w * 262144 + x * 4096 + y * 64 + z) @ utf8Decode bs"
  by (simp add: isContinuation_def)

lemma utf8Decode_2:
  assumes "128 \<le> c" "c < 2048"
  shows "utf8Decode ((192 + c div 64) # (128 + c mod 64) # bs) = c # utf8Decode bs"
proof -
  have "2 \<le> c div 64" "c div 64 < 32" "c mod 64 < 64"
    using assms by (simp_all add: div_less_iff_less_mult less_eq_div_iff_mult_less_eq)
  from utf8Decode_2' [OF this] show ?thesis by simp
qed

lemma utf8Decode_3:
  assumes "2048 \<le> c" "c < 65536" "\<not> isLeadingSurrogate c" "\<not> isTrailingSurrogate c"
  shows "utf8Decode ((224 + c div 4096) # (128 + c div 64 mod 64) # (128 + c mod 64) # bs) =
           c # utf8Decode bs"
proof -
  have x: "c div 4096 < 16" using assms by (simp add: div_less_iff_less_mult)
  have lo: "c div 4096 = 0 \<longrightarrow> 32 \<le> c div 64 mod 64"
    using assms(1) by (auto simp: mid_digit less_eq_div_iff_mult_less_eq)
  have "c < 55296 \<or> 57343 < c"
    using assms by (auto simp: isLeadingSurrogate_def isTrailingSurrogate_def)
  then have hi: "c div 4096 = 13 \<longrightarrow> c div 64 mod 64 \<le> 31"
  proof
    assume "c < 55296"
    then have "c div 64 < 864" by (simp add: div_less_iff_less_mult)
    then show ?thesis by (auto simp: mid_digit)
  next
    assume "57343 < c"
    then have "57344 \<le> c" by simp
    then have "14 \<le> c div 4096" by (simp add: less_eq_div_iff_mult_less_eq)
    then show ?thesis by simp
  qed
  from utf8Decode_3' [OF x _ _ lo hi, of "c mod 64" bs] show ?thesis
    by (simp add: split3)
qed

lemma utf8Decode_4:
  assumes "65536 \<le> cp" "cp < 1114112"
  shows "utf8Decode ((240 + cp div 262144) # (128 + cp div 4096 mod 64) #
                     (128 + cp div 64 mod 64) # (128 + cp mod 64) # bs) =
           codePointUnits cp @ utf8Decode bs"
proof -
  have w: "cp div 262144 < 5" using assms by (simp add: div_less_iff_less_mult)
  have lo: "cp div 262144 = 0 \<longrightarrow> 16 \<le> cp div 4096 mod 64"
    using assms(1) by (auto simp: high_digit less_eq_div_iff_mult_less_eq)
  have "cp div 4096 < 272" using assms(2) by (simp add: div_less_iff_less_mult)
  then have hi: "cp div 262144 = 4 \<longrightarrow> cp div 4096 mod 64 \<le> 15"
    by (auto simp: high_digit)
  from utf8Decode_4' [OF w _ _ _ lo hi, of "cp div 64 mod 64" "cp mod 64" bs] show ?thesis
    by (simp add: split4)
qed

lemma codePointUnits_pair:
  "y < 1024 \<Longrightarrow> codePointUnits (65536 + x * 1024 + y) = [55296 + x, 56320 + y]"
  by (simp add: codePointUnits_def)

lemma surrogate_pair:
  assumes "isLeadingSurrogate c" "isTrailingSurrogate d"
  shows "65536 \<le> 65536 + (c - 55296) * 1024 + (d - 56320)"
    and "65536 + (c - 55296) * 1024 + (d - 56320) < 1114112"
    and "codePointUnits (65536 + (c - 55296) * 1024 + (d - 56320)) = [c, d]"
proof -
  from assms have c: "55296 \<le> c" "c - 55296 < 1024" and d: "56320 \<le> d" "d - 56320 < 1024"
    by (auto simp: isLeadingSurrogate_def isTrailingSurrogate_def)
  show "65536 \<le> 65536 + (c - 55296) * 1024 + (d - 56320)" by simp
  from c(2) have "(c - 55296) * 1024 \<le> 1023 * 1024" by simp
  with d(2) show "65536 + (c - 55296) * 1024 + (d - 56320) < 1114112" by simp
  from codePointUnits_pair [OF d(2), of "c - 55296"] c(1) d(1)
  show "codePointUnits (65536 + (c - 55296) * 1024 + (d - 56320)) = [c, d]" by simp
qed

lemma utf8Decode_1: "c < 128 \<Longrightarrow> utf8Decode (c # bs) = c # utf8Decode bs"
  by simp

lemma utf8_roundtrip: "wellFormed s \<Longrightarrow> utf8Decode (utf8Encode s) = s"
proof (induction s rule: wellFormed.induct)
  case 1
  show ?case by simp
next
  case (2 c)
  then show ?case
    using utf8Decode_2 [of c "[]"] utf8Decode_3 [of c "[]"]
    by (auto simp del: utf8Decode.simps(2) simp add: utf8Decode_1)
next
  case (3 c d cs)
  show ?case
  proof (cases "isLeadingSurrogate c \<and> isTrailingSurrogate d")
    case True
    with 3 have IH: "utf8Decode (utf8Encode cs) = cs" by simp
    from True have big: "\<not> c < 128" "\<not> c < 2048"
      by (auto simp: isLeadingSurrogate_def)
    show ?thesis
      using True big IH surrogate_pair [of c d]
        utf8Decode_4 [of "65536 + (c - 55296) * 1024 + (d - 56320)" "utf8Encode cs"]
      by (simp add: Let_def del: utf8Decode.simps(2))
  next
    case False
    with 3 have IH: "utf8Decode (utf8Encode (d # cs)) = d # cs"
      and c: "c < 65536" "\<not> isLeadingSurrogate c" "\<not> isTrailingSurrogate c"
      by auto
    show ?thesis
      using c IH utf8Decode_2 [of c "utf8Encode (d # cs)"] utf8Decode_3 [of c "utf8Encode (d # cs)"]
      by (auto simp del: utf8Decode.simps(2) utf8Encode.simps(2)
          simp add: utf8Encode.simps(2) [of c] utf8Decode_1)
  qed
qed

lemma mod64_byte: "(x::nat) mod 64 < 128"
  by (rule less_trans [OF mod_less_divisor]) simp_all

lemma mod10_ascii: "48 + (n::nat) mod 10 < 128"
proof -
  have "n mod 10 < 10" by simp
  then show ?thesis by linarith
qed

lemma utf8Encode_bytes: "wellFormed s \<Longrightarrow> list_all (\<lambda>b. b < 256) (utf8Encode s)"
proof (induction s rule: wellFormed.induct)
  case 1
  show ?case by simp
next
  case (2 c)
  then have "c div 4096 < 16" by (simp add: div_less_iff_less_mult)
  moreover have "c < 2048 \<longrightarrow> c div 64 < 32" by (simp add: div_less_iff_less_mult)
  ultimately show ?case using 2 by auto
next
  case (3 c d cs)
  show ?case
  proof (cases "isLeadingSurrogate c \<and> isTrailingSurrogate d")
    case True
    with 3 have IH: "list_all (\<lambda>b. b < 256) (utf8Encode cs)" by simp
    from True have big: "\<not> c < 128" "\<not> c < 2048"
      by (auto simp: isLeadingSurrogate_def)
    from surrogate_pair(2) [of c d] True
    have "(65536 + (c - 55296) * 1024 + (d - 56320)) div 262144 < 5"
      by (simp add: div_less_iff_less_mult)
    then show ?thesis
      using True big IH by (simp add: Let_def mod64_byte)
  next
    case False
    with 3 have IH: "list_all (\<lambda>b. b < 256) (utf8Encode (d # cs))"
      and c: "c < 65536" "\<not> isLeadingSurrogate c" "\<not> isTrailingSurrogate c"
      by auto
    from c have "c div 4096 < 16" by (simp add: div_less_iff_less_mult)
    moreover have "c < 2048 \<longrightarrow> c div 64 < 32" by (simp add: div_less_iff_less_mult)
    ultimately show ?thesis
      using c IH
      by (auto simp del: utf8Encode.simps(2) simp add: utf8Encode.simps(2) [of c])
  qed
qed

text \<open>The text \<^verbatim>\<open>JSON.stringify\<close> writes for strings and integers is well-formed.\<close>

lemma wellFormed_Cons:
  "c < 65536 \<Longrightarrow> \<not> isLeadingSurrogate c \<Longrightarrow> \<not> isTrailingSurrogate c \<Longrightarrow> wellFormed ys \<Longrightarrow>
   wellFormed (c # ys)"
  by (cases ys) simp_all

lemma wellFormed_append: "wellFormed xs \<Longrightarrow> wellFormed ys \<Longrightarrow> wellFormed (xs @ ys)"
proof (induction xs rule: wellFormed.induct)
  case 1
  then show ?case by simp
next
  case (2 c)
  then show ?case by (simp add: wellFormed_Cons)
next
  case (3 c d cs)
  show ?case
  proof (cases "isLeadingSurrogate c \<and> isTrailingSurrogate d")
    case True
    with 3 show ?thesis by simp
  next
    case False
    with 3 have "wellFormed ((d # cs) @ ys)" and c: "c < 65536" "\<not> isLeadingSurrogate c" "\<not> isTrailingSurrogate c"
      by simp_all
    then show ?thesis using False by simp
  qed
qed

lemma ascii_not_surrogate: "c < 128 \<Longrightarrow> \<not> isLeadingSurrogate c \<and> \<not> isTrailingSurrogate c \<and> c < 65536"
  by (simp add: isLeadingSurrogate_def isTrailingSurrogate_def)

lemma wellFormed_ascii: "list_all (\<lambda>c. c < 128) xs \<Longrightarrow> wellFormed xs"
proof (induction xs)
  case Nil
  show ?case by simp
next
  case (Cons c xs)
  then have "c < 128" "wellFormed xs" by simp_all
  with ascii_not_surrogate [of c] show ?case by (simp add: wellFormed_Cons)
qed

lemma hexDigit_lt: "x < 16 \<Longrightarrow> hexDigit x < 128"
  by (simp add: hexDigit_def)

lemma hexDigit_ascii: "hexDigit (d mod 16) < 128"
  by (rule hexDigit_lt) simp

lemma unicodeEscape_ascii: "list_all (\<lambda>c. c < 128) (unicodeEscape c)"
  by (simp add: unicodeEscape_def hexDigit_ascii)

lemma wellFormed_quoteCodeUnit: "c < 65536 \<Longrightarrow> wellFormed (quoteCodeUnit c)"
proof (cases "c < 32 \<or> isLeadingSurrogate c \<or> isTrailingSurrogate c \<or> c = 34 \<or> c = 92")
  case True
  then have "list_all (\<lambda>c. c < 128) (quoteCodeUnit c)"
    by (auto simp: quoteCodeUnit_def unicodeEscape_ascii)
  then show ?thesis by (rule wellFormed_ascii)
next
  case False
  assume c: "c < 65536"
  from False have "quoteCodeUnit c = [c]"
    by (auto simp: quoteCodeUnit_def)
  with False c show ?thesis by simp
qed

lemma wellFormed_quoteChars: "isString s \<Longrightarrow> wellFormed (quoteChars s)"
proof (induction s rule: quoteChars.induct)
  case 1
  show ?case by simp
next
  case (2 c)
  then show ?case by (simp add: isString_def wellFormed_quoteCodeUnit)
next
  case (3 c d cs)
  show ?case
  proof (cases "isLeadingSurrogate c \<and> isTrailingSurrogate d")
    case True
    with 3 show ?thesis by (simp add: isString_def)
  next
    case False
    with 3 have "wellFormed (quoteChars (d # cs))" "c < 65536"
      by (simp_all add: isString_def)
    then have "wellFormed (quoteCodeUnit c @ quoteChars (d # cs))"
      by (intro wellFormed_append wellFormed_quoteCodeUnit)
    then show ?thesis unfolding quoteChars.simps if_not_P [OF False] .
  qed
qed

lemma digits_ascii: "list_all (\<lambda>c. c < 128) (digits n)"
  by (induction n rule: digits.induct) (subst digits.simps, simp add: mod10_ascii)

lemma wellFormed_numberToString: "wellFormed (numberToString n)"
  by (auto simp: numberToString_def digits_ascii intro!: wellFormed_ascii)

lemma wellFormed_QuoteJSONString: "isString s \<Longrightarrow> wellFormed (QuoteJSONString s)"
  unfolding QuoteJSONString_def
  by (intro wellFormed_append wellFormed_quoteChars wellFormed_ascii) simp_all

text \<open>The lexer reads a quoted string and the digits of an integer back.\<close>

lemma hexValue_hexDigit: "x < 16 \<Longrightarrow> hexValue (hexDigit x) = Some x"
  by (auto simp: hexValue_def hexDigit_def)

lemma hexValue_hexDigit_mod [simp]: "hexValue (hexDigit (x mod 16)) = Some (x mod 16)"
  by (rule hexValue_hexDigit) simp

lemma hex4:
  assumes "c < 65536"
  shows "c div 4096 mod 16 * 4096 + c div 256 mod 16 * 256 + c div 16 mod 16 * 16 + c mod 16 = (c::nat)"
proof -
  have "c div 4096 < 16" using assms by (simp add: div_less_iff_less_mult)
  then have top: "c div 4096 mod 16 = c div 4096" by simp
  have "c mod 4096 = c mod (256 * 16)" by simp
  also have "\<dots> = 256 * (c div 256 mod 16) + c mod 256" by (rule mod_mult2_eq)
  finally have a: "c div 4096 * 4096 + (256 * (c div 256 mod 16) + c mod 256) = c"
    by (metis div_mult_mod_eq)
  have "c mod 256 = c mod (16 * 16)" by simp
  also have "\<dots> = 16 * (c div 16 mod 16) + c mod 16" by (rule mod_mult2_eq)
  finally have b: "c mod 256 = c div 16 mod 16 * 16 + c mod 16" by (simp add: mult.commute)
  from a b top show ?thesis by (simp add: mult.commute)
qed

lemma lexString_u:
  "a < 16 \<Longrightarrow> b < 16 \<Longrightarrow> x < 16 \<Longrightarrow> y < 16 \<Longrightarrow>
   lexString (92 # 117 # hexDigit a # hexDigit b # hexDigit x # hexDigit y # t) =
     consUnit (a * 4096 + b * 256 + x * 16 + y) (lexString t)"
  by (simp add: hexValue_hexDigit)

lemma lexString_unicodeEscape:
  assumes "c < 65536"
  shows "lexString (unicodeEscape c @ t) = consUnit c (lexString t)"
proof -
  have "lexString (unicodeEscape c @ t) =
          consUnit (c div 4096 mod 16 * 4096 + c div 256 mod 16 * 256 + c div 16 mod 16 * 16 + c mod 16)
            (lexString t)"
    unfolding unicodeEscape_def append.simps by (rule lexString_u) simp_all
  then show ?thesis by (simp only: hex4 [OF assms])
qed

lemma surrogate_lt: "isLeadingSurrogate c \<or> isTrailingSurrogate c \<Longrightarrow> c < 65536"
  by (auto simp: isLeadingSurrogate_def isTrailingSurrogate_def)

lemma surrogate_ge: "isLeadingSurrogate c \<or> isTrailingSurrogate c \<Longrightarrow> 55296 \<le> c"
  by (auto simp: isLeadingSurrogate_def isTrailingSurrogate_def)

lemma lexString_literal:
  "32 \<le> c \<Longrightarrow> c \<noteq> 34 \<Longrightarrow> c \<noteq> 92 \<Longrightarrow> lexString (c # t) = consUnit c (lexString t)"
  by simp

lemma lexString_quoteCodeUnit: "lexString (quoteCodeUnit c @ t) = consUnit c (lexString t)"
proof (cases "c < 32 \<or> isLeadingSurrogate c \<or> isTrailingSurrogate c \<or> c = 34 \<or> c = 92")
  case True
  then have "c < 65536" using surrogate_lt [of c] by auto
  then have u: "lexString (unicodeEscape c @ t) = consUnit c (lexString t)"
    by (rule lexString_unicodeEscape)
  from True show ?thesis
    by (auto simp: quoteCodeUnit_def u simpleEscape_def simp del: lexString.simps(2)
          simp add: lexString.simps(2) [of 92])
next
  case False
  then have "quoteCodeUnit c = [c]" by (auto simp: quoteCodeUnit_def)
  with False show ?thesis by (simp add: lexString_literal del: lexString.simps(2))
qed

lemma lexString_pair:
  assumes "isLeadingSurrogate c" "isTrailingSurrogate d"
  shows "lexString (c # d # t) = consUnit c (consUnit d (lexString t))"
proof -
  from assms surrogate_ge [of c] surrogate_ge [of d]
  have "32 \<le> c" "c \<noteq> 34" "c \<noteq> 92" "32 \<le> d" "d \<noteq> 34" "d \<noteq> 92" by auto
  then show ?thesis by (simp add: lexString_literal del: lexString.simps(2))
qed

lemma lexString_quoteChars: "lexString (quoteChars s @ 34 # rest) = Some (s, rest)"
proof (induction s rule: quoteChars.induct)
  case 1
  show ?case by simp
next
  case (2 c)
  show ?case by (simp add: lexString_quoteCodeUnit consUnit_def del: lexString.simps(2)) simp
next
  case (3 c d cs)
  show ?case
  proof (cases "isLeadingSurrogate c \<and> isTrailingSurrogate d")
    case True
    with 3 have IH: "lexString (quoteChars cs @ 34 # rest) = Some (cs, rest)" by simp
    from True show ?thesis
      by (simp add: lexString_pair IH consUnit_def del: lexString.simps(2))
  next
    case False
    with 3 have IH: "lexString (quoteChars (d # cs) @ 34 # rest) = Some (d # cs, rest)" by simp
    have "quoteChars (c # d # cs) = quoteCodeUnit c @ quoteChars (d # cs)"
      unfolding quoteChars.simps if_not_P [OF False] ..
    then show ?thesis
      by (simp add: lexString_quoteCodeUnit IH consUnit_def del: lexString.simps(2) quoteChars.simps)
  qed
qed

lemma digits_nonempty: "digits n \<noteq> []"
  by (subst digits.simps) simp

lemma isDigit_digit: "d < 10 \<Longrightarrow> isDigit (48 + d)"
  by (simp add: isDigit_def)

lemma digits_all: "list_all isDigit (digits n)"
proof (induction n rule: digits.induct)
  case (1 n)
  have "isDigit (48 + n mod 10)" by (rule isDigit_digit) simp
  with 1 show ?case by (subst digits.simps) (simp add: isDigit_digit)
qed

lemma digits_hd: "n \<noteq> 0 \<Longrightarrow> hd (digits n) \<noteq> 48"
proof (induction n rule: digits.induct)
  case (1 n)
  show ?case
  proof (cases "n < 10")
    case True
    with 1 show ?thesis by (subst digits.simps) simp
  next
    case False
    then have "n div 10 \<noteq> 0" by (simp add: div_eq_0_iff)
    with 1 False have "hd (digits (n div 10)) \<noteq> 48" by simp
    with False show ?thesis by (subst digits.simps) (simp add: digits_nonempty)
  qed
qed

lemma digitsValue_snoc: "digitsValue (xs @ [d]) = 10 * digitsValue xs + (d - 48)"
  by (simp add: digitsValue_def)

lemma digitsValue_digits: "digitsValue (digits n) = n"
proof (induction n rule: digits.induct)
  case (1 n)
  show ?case
  proof (cases "n < 10")
    case True
    then show ?thesis by (subst digits.simps) (simp add: digitsValue_def)
  next
    case False
    with 1 have "digitsValue (digits (n div 10)) = n div 10" by simp
    with False show ?thesis by (subst digits.simps) (simp add: digitsValue_snoc)
  qed
qed

lemma span_digits:
  assumes "\<not> isDigit x"
  shows "takeWhile isDigit (digits n @ x # t) = digits n"
    and "dropWhile isDigit (digits n @ x # t) = x # t"
proof -
  have all: "\<forall>y\<in>set (digits n). isDigit y"
    using digits_all [of n] by (simp add: list_all_iff)
  from all assms show "takeWhile isDigit (digits n @ x # t) = digits n"
    by (simp add: takeWhile_append2)
  from all assms show "dropWhile isDigit (digits n @ x # t) = x # t"
    by (simp add: dropWhile_append2)
qed

lemma lexInteger_digits:
  assumes "\<not> isDigit x"
  shows "lexInteger (digits n @ x # t) = Some (digits n, x # t)"
proof (cases "n = 0")
  case True
  then have "digits n = [48]" by (subst digits.simps) simp
  then show ?thesis by (simp add: lexInteger_def isDigit_def)
next
  case False
  obtain d r where dr: "digits n = d # r"
    using digits_nonempty [of n] by (cases "digits n") auto
  from digits_hd [OF False] dr have d48: "d \<noteq> 48" by simp
  from digits_all [of n] dr have dd: "isDigit d" and rr: "\<forall>y\<in>set r. isDigit y"
    by (simp_all add: list_all_iff)
  from rr assms have "takeWhile isDigit (r @ x # t) = r" "dropWhile isDigit (r @ x # t) = x # t"
    by (simp_all add: takeWhile_append2 dropWhile_append2)
  with dr d48 dd show ?thesis by (simp add: lexInteger_def)
qed

lemma lexNumber_digits:
  assumes "n < 9007199254740992"
  shows "lexNumber (digits n @ 44 # t) = Some (Num (int n), 44 # t)"
proof -
  have nd: "\<not> isDigit 44" by (simp add: isDigit_def)
  obtain d r where dr: "digits n = d # r"
    using digits_nonempty [of n] by (cases "digits n") auto
  from digits_all [of n] dr have "isDigit d" by simp
  then have d45: "d \<noteq> 45" by (auto simp: isDigit_def)
  have "lexNumber (d # r @ 44 # t) = Some (Num (int n), 44 # t)"
    using lexInteger_digits [OF nd, of n t] d45 digitsValue_digits [of n] dr assms
    by (simp add: lexNumber_def lexFraction_def lexExponent_def)
  with dr show ?thesis by simp
qed

lemma lexNumber_minus_digits:
  assumes "0 < n" "n < 9007199254740992"
  shows "lexNumber (45 # digits n @ 44 # t) = Some (Num (- int n), 44 # t)"
proof -
  have nd: "\<not> isDigit 44" by (simp add: isDigit_def)
  show ?thesis
    using lexInteger_digits [OF nd, of n t] digitsValue_digits [of n] assms
    by (simp add: lexNumber_def lexFraction_def lexExponent_def)
qed

lemma lexNumber_numberToString:
  assumes "\<bar>n\<bar> < 9007199254740992"
  shows "lexNumber (numberToString n @ 44 # t) = Some (Num n, 44 # t)"
proof (cases "n < 0")
  case True
  with assms have "0 < nat (- n)" "nat (- n) < 9007199254740992" by simp_all
  from lexNumber_minus_digits [OF this, of t] True show ?thesis
    by (simp add: numberToString_def)
next
  case False
  with assms have "nat n < 9007199254740992" by simp
  from lexNumber_digits [OF this, of t] False show ?thesis
    by (simp add: numberToString_def)
qed

lemma numberToString_head:
  "\<exists>c cs. numberToString n = c # cs \<and> (c = 45 \<or> isDigit c)"
proof -
  obtain d r where dr: "digits (nat \<bar>n\<bar>) = d # r"
    using digits_nonempty [of "nat \<bar>n\<bar>"] by (cases "digits (nat \<bar>n\<bar>)") auto
  from digits_all [of "nat \<bar>n\<bar>"] dr have "isDigit d" by simp
  with dr show ?thesis
    by (cases "n < 0") (auto simp: numberToString_def abs_if)
qed

lemma lex_string_token:
  "lex (34 # quoteChars s @ 34 # rest) = map_option (Cons (Scalar (Str s))) (lex rest)"
  by (simp add: lexString_quoteChars)

lemma lex_number_token:
  assumes "\<bar>n\<bar> < 9007199254740992"
  shows "lex (numberToString n @ 44 # t) = map_option (Cons (Scalar (Num n))) (lex (44 # t))"
proof -
  obtain c cs where h: "numberToString n = c # cs" "c = 45 \<or> isDigit c"
    using numberToString_head [of n] by blast
  from h(2) have c: "c \<noteq> 32" "c \<noteq> 9" "c \<noteq> 10" "c \<noteq> 13" "c \<noteq> 123" "c \<noteq> 125" "c \<noteq> 91" "c \<noteq> 93"
    "c \<noteq> 58" "c \<noteq> 44" "c \<noteq> 34"
    by (auto simp: isDigit_def)
  have "lexNumber (c # cs @ 44 # t) = Some (Num n, 44 # t)"
    using lexNumber_numberToString [OF assms, of t] h(1) by simp
  with c h(2) have "lex (c # cs @ 44 # t) = map_option (Cons (Scalar (Num n))) (lex (44 # t))"
    by (simp del: lex.simps(2) add: lex.simps(2) [of c])
  with h(1) show ?thesis by simp
qed

text \<open>The cursor of a pair.\<close>

lemma JSON_stringify_array_eq: "SerializeJSONProperty (Arr xs) = Some (JSON_stringify_array xs)"
  by (simp add: JSON_stringify_array_def)

lemma base64Encode_nonempty: "bs \<noteq> [] \<Longrightarrow> base64Encode bs \<noteq> []"
  by (induction bs rule: base64Encode.induct) simp_all

lemma cursor_text_roundtrip:
  assumes "wellFormed text"
  shows "utf8Decode (base64Decode (base64Encode (utf8Encode text))) = text"
  using assms by (simp add: base64_roundtrip utf8Encode_bytes utf8_roundtrip)

lemma parse_pair:
  "(case parseTokens (Value, []) [LBracket, Scalar a, Comma, Scalar b, RBracket] of
      Some (Result v, []) \<Rightarrow> Some v
    | _ \<Rightarrow> None) = Some (Arr [a, b])"
  by (simp add: valueToken_def closeToken_def deliver_def)

lemma stringify_pair_Str:
  "JSON_stringify_array [Str s, Str i] =
     91 # 34 # quoteChars s @ 34 # 44 # 34 # quoteChars i @ [34, 93]"
  by (simp add: JSON_stringify_array_def joinWith_def QuoteJSONString_def js_def)

lemma stringify_pair_Num:
  "JSON_stringify_array [Num n, Str i] =
     91 # numberToString n @ 44 # 34 # quoteChars i @ [34, 93]"
  by (simp add: JSON_stringify_array_def joinWith_def QuoteJSONString_def js_def)

lemma lex_tail: "lex (44 # 34 # quoteChars i @ [34, 93]) = Some [Comma, Scalar (Str i), RBracket]"
proof -
  have "lex (34 # quoteChars i @ 34 # [93]) = Some [Scalar (Str i), RBracket]"
    by (simp only: lex_string_token) simp
  then show ?thesis by simp
qed

lemma JSON_parse_pair_Str:
  "JSON_parse (JSON_stringify_array [Str s, Str i]) = Some (Arr [Str s, Str i])"
proof -
  have "lex (34 # quoteChars s @ 34 # 44 # 34 # quoteChars i @ [34, 93]) =
          Some [Scalar (Str s), Comma, Scalar (Str i), RBracket]"
    by (simp only: lex_string_token lex_tail) simp
  then have "lex (JSON_stringify_array [Str s, Str i]) =
          Some [LBracket, Scalar (Str s), Comma, Scalar (Str i), RBracket]"
    by (simp add: stringify_pair_Str del: lex.simps(2) add: lex.simps(2) [of 91])
  then show ?thesis
    unfolding JSON_parse_def by (simp only: option.case parse_pair)
qed

lemma JSON_parse_pair_Num:
  assumes "\<bar>n\<bar> < 9007199254740992"
  shows "JSON_parse (JSON_stringify_array [Num n, Str i]) = Some (Arr [Num n, Str i])"
proof -
  have "lex (numberToString n @ 44 # 34 # quoteChars i @ [34, 93]) =
          Some [Scalar (Num n), Comma, Scalar (Str i), RBracket]"
    by (simp only: lex_number_token [OF assms] lex_tail) simp
  then have "lex (JSON_stringify_array [Num n, Str i]) =
          Some [LBracket, Scalar (Num n), Comma, Scalar (Str i), RBracket]"
    by (simp add: stringify_pair_Num del: lex.simps(2) add: lex.simps(2) [of 91])
  then show ?thesis
    unfolding JSON_parse_def by (simp only: option.case parse_pair)
qed

lemma stringify_pair_Null:
  "JSON_stringify_array [Null, Str i] =
     91 # 110 # 117 # 108 # 108 # 44 # 34 # quoteChars i @ [34, 93]"
  by (simp add: JSON_stringify_array_def joinWith_def QuoteJSONString_def js_def)

lemma JSON_parse_pair_Null:
  "JSON_parse (JSON_stringify_array [Null, Str i]) = Some (Arr [Null, Str i])"
proof -
  have "lex (110 # 117 # 108 # 108 # 44 # 34 # quoteChars i @ [34, 93]) =
          map_option (Cons (Scalar Null)) (lex (44 # 34 # quoteChars i @ [34, 93]))"
    by (simp add: js_def isDigit_def del: lex.simps(2) add: lex.simps(2) [of 110])
  then have "lex (JSON_stringify_array [Null, Str i]) =
          Some [LBracket, Scalar Null, Comma, Scalar (Str i), RBracket]"
    by (simp add: stringify_pair_Null lex_tail del: lex.simps(2) add: lex.simps(2) [of 91])
  then show ?thesis
    unfolding JSON_parse_def by (simp only: option.case parse_pair)
qed

lemma wellFormed_text_tail: "isString i \<Longrightarrow> wellFormed (44 # 34 # quoteChars i @ [34, 93])"
proof -
  assume "isString i"
  then have "wellFormed (quoteChars i @ [34, 93])"
    by (intro wellFormed_append wellFormed_quoteChars wellFormed_ascii) simp_all
  then show ?thesis by (simp add: wellFormed_Cons ascii_not_surrogate)
qed

lemma wellFormed_pair_Str:
  assumes "isString s" "isString i"
  shows "wellFormed (JSON_stringify_array [Str s, Str i])"
proof -
  have "wellFormed (quoteChars s @ 34 # 44 # 34 # quoteChars i @ [34, 93])"
    using assms wellFormed_text_tail [of i]
    by (intro wellFormed_append wellFormed_quoteChars wellFormed_Cons) (simp_all add: ascii_not_surrogate)
  then show ?thesis
    by (simp add: stringify_pair_Str wellFormed_Cons ascii_not_surrogate)
qed

lemma wellFormed_pair_Num:
  assumes "isString i"
  shows "wellFormed (JSON_stringify_array [Num n, Str i])"
proof -
  have "wellFormed (numberToString n @ 44 # 34 # quoteChars i @ [34, 93])"
    using assms wellFormed_text_tail [of i]
    by (intro wellFormed_append wellFormed_numberToString) simp_all
  then show ?thesis
    by (simp add: stringify_pair_Num wellFormed_Cons ascii_not_surrogate)
qed

lemma wellFormed_pair_Null:
  assumes "isString i"
  shows "wellFormed (JSON_stringify_array [Null, Str i])"
  using wellFormed_text_tail [OF assms]
  by (simp add: stringify_pair_Null wellFormed_Cons ascii_not_surrogate)

lemma encodeCursor_nonempty: "encodeCursor [a, b] \<noteq> []"
proof -
  have "JSON_stringify_array [a, b] = 91 # tl (JSON_stringify_array [a, b])"
    by (simp add: JSON_stringify_array_def js_def)
  moreover have "utf8Encode (91 # r) \<noteq> []" for r
    by simp
  ultimately have "utf8Encode (JSON_stringify_array [a, b]) \<noteq> []"
    by metis
  then show ?thesis
    unfolding encodeCursor_def by (rule base64Encode_nonempty)
qed


text \<open>
  C4. For every valid sort value \<open>v\<close> (a string, an integer a double holds exactly,
  or \<^verbatim>\<open>null\<close>) and every id (a string), decoding the cursor that encodes the pair \<open>(v, id)\<close> gives the
  pair back: \<open>decode (encode (v, id)) = (v, id)\<close>. So \<open>buildSearchBody\<close>, given the
  cursor \<open>processSearchResponse\<close> builds from \<open>v\<close> and \<open>id\<close>, resumes the search
  after exactly \<open>[v, id]\<close>.
\<close>

theorem cursor_roundtrip:
  assumes "validSortValue v" and "isString i"
  shows "decodeCursor (encodeCursor [v, Str i]) = Some (Arr [v, Str i]) \<and>
         buildSearchBody q limit (Some (encodeCursor [v, Str i])) sortField sortDirection =
           Inr \<lparr>query = q,
                sort_spec = [(toPropertyKey (getSortFieldMapping sortField), sortDirection),
                             (js ''id'', js ''desc'')],
                size' = limit + 1,
                search_after = Some (Arr [v, Str i])\<rparr>"
proof -
  have d: "decodeCursor (encodeCursor [v, Str i]) = Some (Arr [v, Str i])"
  proof (cases v)
    case (Str s)
    with assms have "isString s" by (simp add: validSortValue_def)
    from wellFormed_pair_Str [OF this assms(2)] show ?thesis
      unfolding decodeCursor_def encodeCursor_def Str
      by (simp only: cursor_text_roundtrip JSON_parse_pair_Str)
  next
    case (Num n)
    with assms have safe: "\<bar>n\<bar> < 9007199254740992" by (simp add: validSortValue_def)
    from wellFormed_pair_Num [OF assms(2), of n] show ?thesis
      unfolding decodeCursor_def encodeCursor_def Num
      by (simp only: cursor_text_roundtrip JSON_parse_pair_Num [OF safe])
  next
    case Null
    from wellFormed_pair_Null [OF assms(2)] show ?thesis
      unfolding decodeCursor_def encodeCursor_def Null
      by (simp only: cursor_text_roundtrip JSON_parse_pair_Null)
  qed (use assms in \<open>simp_all add: validSortValue_def\<close>)
  then show ?thesis
    by (simp add: buildSearchBody_def encodeCursor_nonempty)
qed

theorem cursor_roundtrip_witness:
  "validSortValue (Str (js ''caf'' @ [233, 32, 55357, 56832])) \<and> isString (js ''id-1'') \<and>
   encodeCursor [Str (js ''caf'' @ [233, 32, 55357, 56832]), Str (js ''id-1'')] =
     js ''WyJjYWbDqSDwn5iAIiwiaWQtMSJd'' \<and>
   decodeCursor (js ''WyJjYWbDqSDwn5iAIiwiaWQtMSJd'') =
     Some (Arr [Str (js ''caf'' @ [233, 32, 55357, 56832]), Str (js ''id-1'')])"
  using cursor_roundtrip [of "Str (js ''caf'' @ [233, 32, 55357, 56832])" "js ''id-1''"
      "Bool [] None" 20 NAME "js ''asc''"]
  by (simp add: validSortValue_def isString_def encode_eval)

subsection \<open>The result mapper\<close>

text \<open>
  C3. For a positive limit and a page of hits: when the page holds more than \<open>limit\<close>
  hits, the result is the first \<open>limit\<close> hits, mapped, in the order of the page, and
  \<open>nextCursor\<close> is the encoding of the pair of the last retained hit's value of the
  physical sort field and its \<open>id\<close>; when it holds at most \<open>limit\<close> hits (exactly
  \<open>limit\<close> included), the result is all of them and \<open>nextCursor\<close> is \<open>null\<close>.
  A response without hits is the empty page.
\<close>

theorem processSearchResponse_page:
  assumes "0 < limit"
  shows "processSearchResponse newSandbox \<lparr>hits = Some hs\<rparr> limit sortField sortDirection =
     (if int (length hs) > limit
      then \<lparr>items = map (\<lambda>hit. mapSourceToSandbox newSandbox (source hit)) (take (nat limit) hs),
            nextCursor = Some (encodeCursor
              [getProp (source (hs ! (nat limit - 1))) (toPropertyKey (getSortFieldMapping sortField)),
               getProp (source (hs ! (nat limit - 1))) (js ''id'')])\<rparr>
      else \<lparr>items = map (\<lambda>hit. mapSourceToSandbox newSandbox (source hit)) hs,
            nextCursor = None\<rparr>) \<and>
   processSearchResponse newSandbox \<lparr>hits = None\<rparr> limit sortField sortDirection =
     \<lparr>items = [], nextCursor = None\<rparr>"
  using assms
  by (auto simp: processSearchResponse_def slice0_def Let_def min_def)

theorem processSearchResponse_page_witness:
  "(0::int) < 1 \<and>
   processSearchResponse (\<lambda>region name. Map.empty)
     \<lparr>hits = Some [\<lparr>source = [(js ''id'', Str (js ''id-1'')), (js ''name'', Str (js ''ab''))]\<rparr>,
                   \<lparr>source = [(js ''id'', Str (js ''id-2'')), (js ''name'', Str (js ''aa''))]\<rparr>]\<rparr>
     1 NAME (js ''desc'') =
   \<lparr>items = [mapSourceToSandbox (\<lambda>region name. Map.empty)
               [(js ''id'', Str (js ''id-1'')), (js ''name'', Str (js ''ab''))]],
    nextCursor = Some (js ''WyJhYiIsImlkLTEiXQ=='')\<rparr>"
  using processSearchResponse_page [of 1 "\<lambda>region name. Map.empty"
     "[\<lparr>source = [(js ''id'', Str (js ''id-1'')), (js ''name'', Str (js ''ab''))]\<rparr>,
       \<lparr>source = [(js ''id'', Str (js ''id-2'')), (js ''name'', Str (js ''aa''))]\<rparr>]"
     NAME "js ''desc''"]
  by (simp add: getProp_def toPropertyKey_def encode_eval)

subsection \<open>The index\<close>

text \<open>
  C8. \<open>createIndex\<close> never throws an already-exists error. When the index exists it
  returns without calling \<open>indices.create\<close>; when a call of the client throws a
  \<^verbatim>\<open>ResponseError\<close> of type \<^verbatim>\<open>resource_already_exists_exception\<close>, be it the
  creation or the check before it, it returns as on success; and whatever it does throw
  is not such an error.
\<close>

theorem createIndex_already_exists:
  "createIndex (Inr True) indicesCreate = \<lparr>thrown = None, createCalled = False\<rparr> \<and>
   (isAlreadyExists e \<longrightarrow>
      createIndex (Inr False) (Inl e) = \<lparr>thrown = None, createCalled = True\<rparr> \<and>
      createIndex (Inl e) indicesCreate = \<lparr>thrown = None, createCalled = False\<rparr>) \<and>
   (\<forall>x. thrown (createIndex indicesExists indicesCreate) = Some x \<longrightarrow> \<not> isAlreadyExists x)"
  by (auto simp: createIndex_def catchCreateIndex_def split: sum.splits if_splits)

theorem createIndex_already_exists_witness:
  "isAlreadyExists (ResponseError (Some (js ''resource_already_exists_exception''))) \<and>
   createIndex (Inr False) (Inl (ResponseError (Some (js ''resource_already_exists_exception'')))) =
     \<lparr>thrown = None, createCalled = True\<rparr> \<and>
   thrown (createIndex (Inr False) (Inl (ResponseError (Some (js ''index_closed_exception''))))) =
     Some (ResponseError (Some (js ''index_closed_exception''))) \<and>
   \<not> isAlreadyExists (ResponseError (Some (js ''index_closed_exception'')))"
  using createIndex_already_exists
    [of "Inl (ResponseError (Some (js ''index_closed_exception'')))"
        "ResponseError (Some (js ''resource_already_exists_exception''))"
        "Inr False"]
  by (simp add: isAlreadyExists_def createIndex_def catchCreateIndex_def js_def)

end
